theory Spec2Isabelle
  imports Complex_Main "HOL-Library.Sublist" "HOL-Library.AList"
begin

section \<open>Survey rows, Python values and exceptions\<close>

text \<open>
  The scripts read one CSV file with pandas. A row of the data frame is a finite map from
  column names to cells; a cell of a text column is a string, or NaN when the field is
  empty. Every exception the modelled code can raise is a value of \<open>error\<close>, and a
  function that can raise returns \<open>error + 'a\<close>.
\<close>

datatype error =
    KeyError string
  | TypeError
  | AttributeError
  | IndexError
  | ValueError
  | LinAlgError

datatype cell = Str string | NaN

type_synonym row = "string \<rightharpoonup> cell"

text \<open>\<^verbatim>\<open>row[key]\<close>: pandas raises KeyError for a label that is not in the index.\<close>

definition getitem :: "row \<Rightarrow> string \<Rightarrow> error + cell" where
  "getitem r key = (case r key of None \<Rightarrow> Inl (KeyError key) | Some v \<Rightarrow> Inr v)"

text \<open>\<^verbatim>\<open>str(value)\<close> on a cell: a string is itself and the float NaN prints as \<open>nan\<close>.\<close>

definition py_str :: "cell \<Rightarrow> string" where
  "py_str v = (case v of Str s \<Rightarrow> s | NaN \<Rightarrow> ''nan'')"

text \<open>\<^verbatim>\<open>sub in s\<close> on strings: \<open>sub\<close> occurs in \<open>s\<close> as a contiguous piece.\<close>

definition py_in :: "string \<Rightarrow> string \<Rightarrow> bool" where
  "py_in sub s = sublist sub s"

text \<open>\<^verbatim>\<open>str(n)\<close> for a non-negative integer, as the f-strings that build column names use it.\<close>

function str_nat :: "nat \<Rightarrow> string" where
  "str_nat n =
     (if n < 10 then [''0123456789'' ! n]
      else str_nat (n div 10) @ [''0123456789'' ! (n mod 10)])"
  by pat_completeness auto
termination
  by (relation "measure (\<lambda>n. n)") auto

declare str_nat.simps [simp del]

text \<open>A value stored in a record (a Python dict): an integer or a copied cell.\<close>

datatype val = I int | C cell

type_synonym pydict = "(string \<times> val) list"

text \<open>\<^verbatim>\<open>record[key] = v\<close>: a new key is appended, an existing key keeps its place.\<close>

definition setitem :: "string \<Rightarrow> val \<Rightarrow> pydict \<Rightarrow> pydict" where
  "setitem key v d = AList.update key v d"

text \<open>Running a list of computations in order; the first exception ends the run.\<close>

fun sequence :: "(error + 'a) list \<Rightarrow> error + 'a list" where
  "sequence [] = Inr []"
| "sequence (m # ms) =
     (case m of
        Inl e \<Rightarrow> Inl e
      | Inr x \<Rightarrow> (case sequence ms of Inl e \<Rightarrow> Inl e | Inr xs \<Rightarrow> Inr (x # xs)))"

text \<open>The seven attributes of the study, in the order every script lists them.\<close>

definition attributes :: "string list" where
  "attributes = [''Tutor'', ''Color_palette'', ''Pricing'', ''Message_success_'',
                 ''Message_failure_'', ''Storytelling'', ''Role_play'']"

section \<open>The choice-set builder of \<^verbatim>\<open>final_robust_conjoint_analysis\<close>\<close>

text \<open>
  The result of \<^verbatim>\<open>get_effects_coding_final\<close> is an integer for a two-level attribute and a
  dict from level names to integers for Pricing.
\<close>

datatype coding = Scalar int | Levels "(string \<times> int) list"

definition get_effects_coding_final :: "cell \<Rightarrow> string \<Rightarrow> coding" where
  "get_effects_coding_final v attr =
     (let value_str = py_str v in
      if attr = ''Tutor'' then Scalar (if py_in ''Female'' value_str then 1 else - 1)
      else if attr = ''Color_palette'' then
        Scalar (if py_in ''Friendly'' value_str then 1 else - 1)
      else if attr = ''Pricing'' then
        (if py_in ''School pays'' value_str then
           Levels [(''free'', 1), (''4.99'', 0), (''7.99'', 0), (''9.99'', 0), (''12.99'', - 1)]
         else if py_in ''$4.99'' value_str then
           Levels [(''free'', 0), (''4.99'', 1), (''7.99'', 0), (''9.99'', 0), (''12.99'', - 1)]
         else if py_in ''$7.99'' value_str then
           Levels [(''free'', 0), (''4.99'', 0), (''7.99'', 1), (''9.99'', 0), (''12.99'', - 1)]
         else if py_in ''$9.99'' value_str then
           Levels [(''free'', 0), (''4.99'', 0), (''7.99'', 0), (''9.99'', 1), (''12.99'', - 1)]
         else
           Levels [(''free'', - 1), (''4.99'', - 1), (''7.99'', - 1), (''9.99'', - 1),
                   (''12.99'', 1)])
      else if attr = ''Message_success_'' then
        Scalar (if py_in ''effort and persistence'' value_str then 1 else - 1)
      else if attr = ''Message_failure_'' then
        Scalar (if py_in ''mistakes are how scientists learn'' value_str then 1 else - 1)
      else if attr = ''Storytelling'' then
        Scalar (if py_in ''Space rescue story'' value_str then 1 else - 1)
      else if attr = ''Role_play'' then
        Scalar (if py_in ''Hero astronaut'' value_str then 1 else - 1)
      else Scalar 0)"

text \<open>
  The entries one attribute adds to the record: for a dict one key \<open>attr_level\<close> per level
  with \<^verbatim>\<open>effect - b_effects.get(level, 0)\<close>, for an integer the single key \<open>attr_diff\<close>.
  Mixed shapes cannot arise for one attribute; Python would raise on them.
\<close>

fun diff_entries :: "string \<Rightarrow> coding \<Rightarrow> coding \<Rightarrow> error + (string \<times> int) list" where
  "diff_entries attr (Levels a) (Levels b) =
     Inr (map (\<lambda>(level, effect).
            (attr @ ''_'' @ level,
             effect - (case map_of b level of Some e \<Rightarrow> e | None \<Rightarrow> 0))) a)"
| "diff_entries attr (Levels a) (Scalar b) = Inl AttributeError"
| "diff_entries attr (Scalar a) (Scalar b) = Inr [(attr @ ''_diff'', a - b)]"
| "diff_entries attr (Scalar a) (Levels b) = Inl TypeError"

text \<open>The loop over the attributes in the body of \<^verbatim>\<open>convert_to_choice_format_final\<close>.\<close>

fun add_attributes :: "string list \<Rightarrow> row \<Rightarrow> nat \<Rightarrow> pydict \<Rightarrow> error + pydict" where
  "add_attributes [] r task record = Inr record"
| "add_attributes (attr # attrs) r task record =
     (case getitem r (''A_'' @ attr @ str_nat task) of
        Inl e \<Rightarrow> Inl e
      | Inr a_val \<Rightarrow>
     (case getitem r (''B_'' @ attr @ str_nat task) of
        Inl e \<Rightarrow> Inl e
      | Inr b_val \<Rightarrow>
     (case diff_entries attr (get_effects_coding_final a_val attr)
             (get_effects_coding_final b_val attr) of
        Inl e \<Rightarrow> Inl e
      | Inr es \<Rightarrow>
          add_attributes attrs r task (fold (\<lambda>(k, d). setitem k (I d)) es record))))"

text \<open>The record of one respondent (index \<open>idx\<close>) and one task.\<close>

definition choice_record_final :: "nat \<Rightarrow> row \<Rightarrow> nat \<Rightarrow> error + pydict" where
  "choice_record_final idx r task =
     (case getitem r (''Task'' @ str_nat task @ ''_choice'') of
        Inl e \<Rightarrow> Inl e
      | Inr choice \<Rightarrow>
     (case getitem r ''Grade'' of
        Inl e \<Rightarrow> Inl e
      | Inr grade \<Rightarrow>
          add_attributes attributes r task
            [(''respondent_id'', I (int idx)), (''task'', I (int task)),
             (''choice'', I (if choice = Str ''A'' then 1 else 0)), (''grade'', C grade)]))"

text \<open>
  The columns of the row that the loop body reads for one task: the choice, the grade, and
  for every attribute the level of alternative A and of alternative B.
\<close>

definition columns_read :: "nat \<Rightarrow> string list" where
  "columns_read task =
     (''Task'' @ str_nat task @ ''_choice'') # ''Grade'' #
     concat (map (\<lambda>attr. [''A_'' @ attr @ str_nat task, ''B_'' @ attr @ str_nat task])
               attributes)"

text \<open>
  \<^verbatim>\<open>convert_to_choice_format_final(df)\<close>: the rows in index order, tasks 1 to 8 for each
  (\<^verbatim>\<open>range(1, 9)\<close>).
\<close>

definition convert_to_choice_format_final :: "row list \<Rightarrow> error + pydict list" where
  "convert_to_choice_format_final df =
     sequence (concat (map (\<lambda>(idx, r). map (choice_record_final idx r) [1..<9])
                         (enumerate 0 df)))"

section \<open>The data frame and the feature columns of \<^verbatim>\<open>final_robust_conjoint_analysis\<close>\<close>

text \<open>
  \<^verbatim>\<open>pd.DataFrame(choice_records)\<close> has one column per key, in the order in which the keys
  first appear in the list of records.
\<close>

definition insert_key :: "string \<Rightarrow> string list \<Rightarrow> string list" where
  "insert_key k ks = (if k \<in> set ks then ks else ks @ [k])"

definition columns :: "pydict list \<Rightarrow> string list" where
  "columns records = fold insert_key (concat (map (map fst) records)) []"

text \<open>\<^verbatim>\<open>s.endswith(suf)\<close>\<close>

definition endswith :: "string \<Rightarrow> string \<Rightarrow> bool" where
  "endswith s suf = suffix suf s"

text \<open>The list comprehension that opens \<^verbatim>\<open>run_robust_analysis\<close>.\<close>

definition feature_cols :: "pydict list \<Rightarrow> string list" where
  "feature_cols choice_data =
     filter (\<lambda>col. endswith col ''_diff'' \<or> endswith col ''_free'' \<or> endswith col ''_4.99'' \<or>
                   endswith col ''_7.99'' \<or> endswith col ''_9.99'' \<or> endswith col ''_12.99'')
       (columns choice_data)"

text \<open>The design columns that belong to one attribute: their names start with \<open>attr_\<close>.\<close>

definition attr_columns :: "string \<Rightarrow> string list \<Rightarrow> string list" where
  "attr_columns attr cols = filter (prefix (attr @ ''_'')) cols"

section \<open>The level table of \<^verbatim>\<open>conditional_logit_analysis\<close>\<close>

text \<open>
  \<^verbatim>\<open>get_all_attribute_levels\<close> lists every level of every attribute with the code of its
  dummy variable. Strings are byte strings here: the em dash and the right single quote of
  the survey texts are their UTF-8 bytes.
\<close>

record level =
  attribute :: string
  level_value :: string
  code :: string

definition em_dash :: string where
  "em_dash = [CHR 0xE2, CHR 0x80, CHR 0x94]"

definition rsquo :: string where
  "rsquo = [CHR 0xE2, CHR 0x80, CHR 0x99]"

definition get_all_attribute_levels :: "level list" where
  "get_all_attribute_levels =
    [\<lparr>attribute = ''Tutor'', level_value = ''Female AI tutor'', code = ''female_tutor''\<rparr>,
     \<lparr>attribute = ''Tutor'', level_value = ''Male AI tutor'', code = ''male_tutor''\<rparr>,
     \<lparr>attribute = ''Color_palette'',
      level_value = ''Friendly & warm (coral / lavender / peach)'', code = ''friendly_colors''\<rparr>,
     \<lparr>attribute = ''Color_palette'',
      level_value = ''Tech & bold (deep blue / black / neon)'', code = ''tech_colors''\<rparr>,
     \<lparr>attribute = ''Pricing'', level_value = ''School pays (free for families)'',
      code = ''school_pays''\<rparr>,
     \<lparr>attribute = ''Pricing'', level_value = ''Free trial + $4.99/month'',
      code = ''pricing_4.99''\<rparr>,
     \<lparr>attribute = ''Pricing'', level_value = ''Free trial + $7.99/month'',
      code = ''pricing_7.99''\<rparr>,
     \<lparr>attribute = ''Pricing'', level_value = ''Free trial + $9.99/month'',
      code = ''pricing_9.99''\<rparr>,
     \<lparr>attribute = ''Pricing'', level_value = ''Free trial + $12.99/month'',
      code = ''pricing_12.99''\<rparr>,
     \<lparr>attribute = ''Message_success_'',
      level_value = ''Great job '' @ em_dash @ '' your effort and persistence helped you solve this!'',
      code = ''growth_message''\<rparr>,
     \<lparr>attribute = ''Message_success_'',
      level_value = ''You solved it so quickly '' @ em_dash @
                    '' you must have a really special talent for science!'',
      code = ''brilliance_message''\<rparr>,
     \<lparr>attribute = ''Message_failure_'',
      level_value = ''That didn'' @ rsquo @ ''t work, but mistakes are how scientists learn. Let'' @
                    rsquo @ ''s try another design.'',
      code = ''supportive_message''\<rparr>,
     \<lparr>attribute = ''Message_failure_'',
      level_value = ''This design didn'' @ rsquo @
                    ''t launch successfully. Here is what went wrong.'',
      code = ''neutral_message''\<rparr>,
     \<lparr>attribute = ''Storytelling'',
      level_value = ''Space rescue story: '' @ [CHR 0x22] @
                    ''Your spaceship must deliver medicine to astronauts stranded on the Moon '' @
                    ''before their oxygen runs out.'' @ [CHR 0x22],
      code = ''space_rescue_story''\<rparr>,
     \<lparr>attribute = ''Storytelling'',
      level_value = ''No story: Just design and test rockets in a sandbox-style game.'',
      code = ''no_story''\<rparr>,
     \<lparr>attribute = ''Role_play'',
      level_value = ''Hero astronaut: You are the astronaut in charge '' @ em_dash @
                    '' the team is counting on you to complete this mission.'',
      code = ''hero_astronaut''\<rparr>,
     \<lparr>attribute = ''Role_play'',
      level_value = ''No specific role: Just design a rocket and see how it works.'',
      code = ''no_specific_role''\<rparr>]"

text \<open>The number of levels the table gives an attribute.\<close>

definition n_levels :: "string \<Rightarrow> nat" where
  "n_levels attr = length (filter (\<lambda>l. attribute l = attr) get_all_attribute_levels)"

text \<open>\<^verbatim>\<open>level_codes\<close> of \<^verbatim>\<open>run_conditional_logit_model\<close>: one dummy variable per entry.\<close>

definition level_codes :: "string list" where
  "level_codes = map code get_all_attribute_levels"

section \<open>A concrete survey row\<close>

text \<open>
  The columns of task 1 of one respondent: alternative A is the female tutor with warm
  colours, paid by the school; alternative B the male tutor with bold colours at $12.99.
  The parameter is the cell of \<open>Task1_choice\<close>.
\<close>

definition example_row :: "cell \<Rightarrow> row" where
  "example_row choice = map_of
     [(''Grade'', Str ''5''),
      (''Task1_choice'', choice),
      (''A_Tutor1'', Str ''Female AI tutor''),
      (''B_Tutor1'', Str ''Male AI tutor''),
      (''A_Color_palette1'', Str ''Friendly & warm (coral / lavender / peach)''),
      (''B_Color_palette1'', Str ''Tech & bold (deep blue / black / neon)''),
      (''A_Pricing1'', Str ''School pays (free for families)''),
      (''B_Pricing1'', Str ''Free trial + $12.99/month''),
      (''A_Message_success_1'',
         Str (''Great job '' @ em_dash @ '' your effort and persistence helped you solve this!'')),
      (''B_Message_success_1'',
         Str (''Great job '' @ em_dash @ '' your effort and persistence helped you solve this!'')),
      (''A_Message_failure_1'',
         Str (''This design didn'' @ rsquo @ ''t launch successfully. Here is what went wrong.'')),
      (''B_Message_failure_1'',
         Str (''That didn'' @ rsquo @ ''t work, but mistakes are how scientists learn. Let'' @
              rsquo @ ''s try another design.'')),
      (''A_Storytelling1'',
         Str ''No story: Just design and test rockets in a sandbox-style game.''),
      (''B_Storytelling1'',
         Str ''No story: Just design and test rockets in a sandbox-style game.''),
      (''A_Role_play1'',
         Str ''No specific role: Just design a rocket and see how it works.''),
      (''B_Role_play1'',
         Str ''No specific role: Just design a rocket and see how it works.'')]"

text \<open>The record the builder makes of that row when the choice is coded 0.\<close>

definition example_record :: pydict where
  "example_record =
     [(''respondent_id'', I 0), (''task'', I 1), (''choice'', I 0), (''grade'', C (Str ''5'')),
      (''Tutor_diff'', I 2), (''Color_palette_diff'', I 2),
      (''Pricing_free'', I 2), (''Pricing_4.99'', I 1), (''Pricing_7.99'', I 1),
      (''Pricing_9.99'', I 1), (''Pricing_12.99'', I (- 2)),
      (''Message_success__diff'', I 0), (''Message_failure__diff'', I (- 2)),
      (''Storytelling_diff'', I 0), (''Role_play_diff'', I 0)]"

text \<open>The keys one attribute contributes to a record of \<^verbatim>\<open>convert_to_choice_format_final\<close>.\<close>

definition attr_keys :: "string \<Rightarrow> string list" where
  "attr_keys attr =
     (if attr = ''Pricing'' then
        [''Pricing_free'', ''Pricing_4.99'', ''Pricing_7.99'', ''Pricing_9.99'', ''Pricing_12.99'']
      else [attr @ ''_diff''])"

text \<open>
  The keys of a record of the builder, and those of them that \<^verbatim>\<open>run_robust_analysis\<close>
  selects as features.
\<close>

definition final_keys :: "string list" where
  "final_keys = [''respondent_id'', ''task'', ''choice'', ''grade'', ''Tutor_diff'',
     ''Color_palette_diff'', ''Pricing_free'', ''Pricing_4.99'', ''Pricing_7.99'',
     ''Pricing_9.99'', ''Pricing_12.99'', ''Message_success__diff'', ''Message_failure__diff'',
     ''Storytelling_diff'', ''Role_play_diff'']"

definition robust_features :: "string list" where
  "robust_features = [''Tutor_diff'', ''Color_palette_diff'', ''Pricing_free'', ''Pricing_4.99'',
     ''Pricing_7.99'', ''Pricing_9.99'', ''Pricing_12.99'', ''Message_success__diff'',
     ''Message_failure__diff'', ''Storytelling_diff'', ''Role_play_diff'']"

section \<open>The long-format builder of \<^verbatim>\<open>conjoint_analysis\<close>\<close>

text \<open>
  \<^verbatim>\<open>attr.lower()\<close>; the attribute names are ASCII, and only the letters A to Z change.
\<close>

definition lower_char :: "char \<Rightarrow> char" where
  "lower_char c =
     (let n = (of_char c :: nat) in if 65 \<le> n \<and> n \<le> 90 then char_of (n + 32) else c)"

definition py_lower :: "string \<Rightarrow> string" where
  "py_lower s = map lower_char s"

text \<open>
  The guarded step of the attribute loop of \<^verbatim>\<open>_convert_to_long_format\<close>:
  \<^verbatim>\<open>if col_name in row: record[attr.lower()] = row[col_name]\<close>.
\<close>

definition add_if_present :: "row \<Rightarrow> nat \<Rightarrow> string \<Rightarrow> string \<Rightarrow> pydict \<Rightarrow> pydict" where
  "add_if_present r task option attr rcd =
     (case r (option @ ''_'' @ attr @ str_nat task) of
        None \<Rightarrow> rcd
      | Some v \<Rightarrow> setitem (py_lower attr) (C v) rcd)"

text \<open>
  The dict literal that starts a record: the keys are fixed, the values come from the row.
\<close>

definition long_base_record ::
  "nat \<Rightarrow> nat \<Rightarrow> string \<Rightarrow> cell \<Rightarrow> cell \<Rightarrow> cell \<Rightarrow> cell \<Rightarrow> cell \<Rightarrow> pydict" where
  "long_base_record respondent_id task option choice learning enjoyment grade prolific_id =
     [(''respondent_id'', I (int respondent_id)), (''task'', I (int task)),
      (''option'', C (Str option)),
      (''chosen'', I (if choice = Str option then 1 else 0)),
      (''perceived_learning'', C learning),
      (''expected_enjoyment'', C enjoyment),
      (''grade'', C grade), (''prolific_id'', C prolific_id)]"

text \<open>
  The record of one respondent, task and option. The choice is read first; the two rating
  columns are read only for the chosen option (the other option gets NaN); \<open>Grade\<close> and
  \<open>Prolific_ID\<close> are read last. A rating cell is only copied, so it is carried as a cell.
\<close>

definition long_record :: "nat \<Rightarrow> row \<Rightarrow> nat \<Rightarrow> string \<Rightarrow> error + pydict" where
  "long_record respondent_id r task option =
     (case getitem r (''Task'' @ str_nat task @ ''_choice'') of
        Inl e \<Rightarrow> Inl e
      | Inr choice \<Rightarrow>
     (case (if choice = Str option
            then getitem r (''Task'' @ str_nat task @ ''_perceivedlearning'') else Inr NaN) of
        Inl e \<Rightarrow> Inl e
      | Inr learning \<Rightarrow>
     (case (if choice = Str option
            then getitem r (''Task'' @ str_nat task @ ''_expectedenjoyment'') else Inr NaN) of
        Inl e \<Rightarrow> Inl e
      | Inr enjoyment \<Rightarrow>
     (case getitem r ''Grade'' of
        Inl e \<Rightarrow> Inl e
      | Inr grade \<Rightarrow>
     (case getitem r ''Prolific_ID'' of
        Inl e \<Rightarrow> Inl e
      | Inr prolific_id \<Rightarrow>
          Inr (fold (add_if_present r task option) attributes
                 (long_base_record respondent_id task option choice learning enjoyment grade
                    prolific_id)))))))"

text \<open>\<^verbatim>\<open>_convert_to_long_format\<close>: every row, tasks 1 to 8, options A and B.\<close>

definition convert_to_long_format :: "row list \<Rightarrow> error + pydict list" where
  "convert_to_long_format df =
     sequence (concat (map (\<lambda>(idx, r).
        concat (map (\<lambda>task. map (long_record idx r task) [''A'', ''B'']) [1..<9]))
        (enumerate 0 df)))"

text \<open>The keys a record has before the attribute loop.\<close>

definition long_base_keys :: "string list" where
  "long_base_keys = [''respondent_id'', ''task'', ''option'', ''chosen'', ''perceived_learning'',
     ''expected_enjoyment'', ''grade'', ''prolific_id'']"

text \<open>
  The example row with ratings and a respondent id, and without the column \<open>A_Tutor1\<close>;
  and the record the builder makes of it for option A of task 1.
\<close>

definition example_long_row :: row where
  "example_long_row =
     (example_row (Str ''A''))
       (''A_Tutor1'' := None,
        ''Prolific_ID'' \<mapsto> Str ''p1'',
        ''Task1_perceivedlearning'' \<mapsto> Str ''4'',
        ''Task1_expectedenjoyment'' \<mapsto> Str ''5'')"

definition example_long_record :: pydict where
  "example_long_record =
     [(''respondent_id'', I 0), (''task'', I 1), (''option'', C (Str ''A'')), (''chosen'', I 1),
      (''perceived_learning'', C (Str ''4'')), (''expected_enjoyment'', C (Str ''5'')),
      (''grade'', C (Str ''5'')), (''prolific_id'', C (Str ''p1'')),
      (''color_palette'', C (Str ''Friendly & warm (coral / lavender / peach)'')),
      (''pricing'', C (Str ''School pays (free for families)'')),
      (''message_success_'',
         C (Str (''Great job '' @ em_dash @
                 '' your effort and persistence helped you solve this!''))),
      (''message_failure_'',
         C (Str (''This design didn'' @ rsquo @
                 ''t launch successfully. Here is what went wrong.''))),
      (''storytelling'',
         C (Str ''No story: Just design and test rockets in a sandbox-style game.'')),
      (''role_play'', C (Str ''No specific role: Just design a rocket and see how it works.''))]"

text \<open>The entries the attribute loop adds: one for each attribute whose column is present.\<close>

definition present_entries :: "row \<Rightarrow> nat \<Rightarrow> string \<Rightarrow> string list \<Rightarrow> pydict" where
  "present_entries r task option attrs =
     concat (map (\<lambda>attr. case r (option @ ''_'' @ attr @ str_nat task) of
                            None \<Rightarrow> [] | Some v \<Rightarrow> [(py_lower attr, C v)]) attrs)"

section \<open>Percentage-point effects\<close>

text \<open>
  Coefficients, probabilities and p-values are Python floats. They are modelled as real
  numbers with exact arithmetic. Where the modelled code itself can produce NaN (the mean
  of an empty array, a quotient 0/0) or is a function of any float (the significance
  labels), the value has type \<open>pyfloat\<close> and \<open>None\<close> stands for NaN.
\<close>

type_synonym pyfloat = "real option"

text \<open>Indexing an array or list by position; out of range raises IndexError.\<close>

definition item_at :: "'a list \<Rightarrow> nat \<Rightarrow> error + 'a" where
  "item_at xs i = (if i < length xs then Inr (xs ! i) else Inl IndexError)"

text \<open>\<^verbatim>\<open>np.mean\<close> of a float array: NaN for the empty array.\<close>

definition np_mean :: "real list \<Rightarrow> pyfloat" where
  "np_mean xs = (if xs = [] then None else Some (sum_list xs / real (length xs)))"

text \<open>
  What a fitted statsmodels \<open>Logit\<close> result offers to the scripts: the coefficient vector,
  its p-values, standard errors and confidence bounds, and \<^verbatim>\<open>result.predict()\<close>, the fitted
  probability of every observation.
\<close>

record fit_result =
  params :: "real list"
  pvalues :: "real list"
  bse :: "real list"
  conf_int :: "(real \<times> real) list"
  predict :: "real list"

text \<open>
  \<^verbatim>\<open>improved_conditional_logit.calculate_ame\<close> (the function
  \<^verbatim>\<open>calculate_ame_alternative\<close> of \<^verbatim>\<open>conditional_logit_analysis\<close> has the same body): for the
  i-th feature, the mean of p(1 - p) over the fitted probabilities, times the i-th
  coefficient, times 100.
\<close>

definition calculate_ame :: "fit_result \<Rightarrow> string list \<Rightarrow> error + pyfloat list" where
  "calculate_ame result features =
     (let predicted_probs = predict result in
      sequence (map (\<lambda>i.
        case item_at (params result) i of
          Inl e \<Rightarrow> Inl e
        | Inr coef \<Rightarrow>
            (let derivative = map (\<lambda>p. p * (1 - p)) predicted_probs in
             Inr (map_option (\<lambda>m. m * coef * 100) (np_mean derivative))))
        [0..<length features]))"

text \<open>
  \<^verbatim>\<open>proper_conjoint_analysis.calculate_pp_effects_proper\<close> (the function
  \<^verbatim>\<open>calculate_pp_effects_final\<close> of \<^verbatim>\<open>final_robust_conjoint_analysis\<close> has the same body):
  the i-th coefficient times 25.
\<close>

definition calculate_pp_effects_proper :: "real list \<Rightarrow> string list \<Rightarrow> error + real list" where
  "calculate_pp_effects_proper coefficients feature_names =
     sequence (map (\<lambda>i.
        case item_at coefficients i of
          Inl e \<Rightarrow> Inl e
        | Inr coef \<Rightarrow> Inr (coef * 25))
        [0..<length feature_names])"

text \<open>\<^verbatim>\<open>simple_conjoint_results.calculate_pp_effects\<close>: the coefficient array times 25.\<close>

definition calculate_pp_effects :: "real list \<Rightarrow> real list" where
  "calculate_pp_effects coefficients = map (\<lambda>c. c * 25) coefficients"

text \<open>
  The Average Marginal Effect as the specification words it: the mean over all choice sets
  of p(1 - p), multiplied by the coefficient and by 100.
\<close>

definition spec_ame :: "real list \<Rightarrow> real \<Rightarrow> pyfloat" where
  "spec_ame probs coefficient =
     map_option (\<lambda>m. m * coefficient * 100) (np_mean (map (\<lambda>p. p * (1 - p)) probs))"

text \<open>A fitted model with one coefficient, 1, and one observation of fitted probability 1/4.\<close>

definition example_fit :: fit_result where
  "example_fit = \<lparr>params = [1], pvalues = [1 / 20], bse = [1 / 2],
                   conf_int = [(0, 2)], predict = [1 / 4]\<rparr>"

section \<open>Wald p-values and their fallbacks\<close>

text \<open>
  A design matrix is the list of its rows. A fitted scikit-learn model offers its
  coefficient vector (\<^verbatim>\<open>model.coef_[0]\<close>) and the probability of class 1 for every row of a
  matrix (\<^verbatim>\<open>model.predict_proba(X)[:, 1]\<close>), which lies between 0 and 1.
\<close>

type_synonym matrix = "real list list"

record lr_model =
  coef_0 :: "real list"
  predict_proba :: "matrix \<Rightarrow> real list"

text \<open>
  \<^verbatim>\<open>X * np.sqrt(w).reshape(-1, 1)\<close>: row i of X scaled by the square root of the i-th
  weight. The weights come from \<^verbatim>\<open>predict_proba(X)\<close>, one per row; a column of another length
  does not broadcast against X.
\<close>

definition weighted :: "matrix \<Rightarrow> real list \<Rightarrow> error + matrix" where
  "weighted X w =
     (if length X = length w
      then Inr (map (\<lambda>(xs, wi). map (\<lambda>x. x * sqrt wi) xs) (zip X w))
      else Inl ValueError)"

text \<open>\<^verbatim>\<open>M.T @ M\<close>: the matrix of the inner products of the columns of M.\<close>

definition gram :: "matrix \<Rightarrow> matrix" where
  "gram m =
     (let cols = transpose m
      in map (\<lambda>c1. map (\<lambda>c2. sum_list (map (\<lambda>(a, b). a * b) (zip c1 c2))) cols) cols)"

text \<open>\<^verbatim>\<open>np.diag\<close> of a matrix.\<close>

fun np_diag :: "matrix \<Rightarrow> real list" where
  "np_diag [] = []"
| "np_diag ([] # rows) = []"
| "np_diag ((x # xs) # rows) = x # np_diag (map tl rows)"

text \<open>\<^verbatim>\<open>np.sqrt\<close> of one entry: NaN for a negative number.\<close>

definition np_sqrt :: "real \<Rightarrow> pyfloat" where
  "np_sqrt x = (if x < 0 then None else Some (sqrt x))"

text \<open>
  One entry of \<^verbatim>\<open>2 * (1 - stats.norm.cdf(np.abs(coef / se)))\<close>. The normal distribution
  function is a parameter. NumPy divides by zero without raising: a non-zero coefficient
  over a zero standard error is infinite and gets the p-value 0; 0/0 is NaN.
\<close>

definition wald_p :: "(real \<Rightarrow> real) \<Rightarrow> real \<Rightarrow> pyfloat \<Rightarrow> pyfloat" where
  "wald_p cdf c se =
     (case se of
        None \<Rightarrow> None
      | Some s \<Rightarrow>
          if s = 0 then (if c = 0 then None else Some 0)
          else Some (2 * (1 - cdf \<bar>c / s\<bar>)))"

text \<open>Element-wise arithmetic of two arrays: equal lengths, or one of them of length 1.\<close>

definition broadcast2 :: "('a \<Rightarrow> 'b \<Rightarrow> 'c) \<Rightarrow> 'a list \<Rightarrow> 'b list \<Rightarrow> error + 'c list" where
  "broadcast2 f xs ys =
     (if length xs = length ys then Inr (map (\<lambda>(x, y). f x y) (zip xs ys))
      else if length ys = 1 then Inr (map (\<lambda>x. f x (hd ys)) xs)
      else if length xs = 1 then Inr (map (f (hd xs)) ys)
      else Inl ValueError)"

text \<open>
  \<^verbatim>\<open>proper_conjoint_analysis.calculate_proper_p_values\<close>. The parameter \<open>linalg_inv\<close> is
  \<^verbatim>\<open>np.linalg.inv\<close>, which returns the inverse or raises LinAlgError. The handler catches
  LinAlgError only and then returns 0.5 for every coefficient.
\<close>

definition calculate_proper_p_values ::
  "(matrix \<Rightarrow> error + matrix) \<Rightarrow> (real \<Rightarrow> real) \<Rightarrow> lr_model \<Rightarrow> matrix \<Rightarrow> int list \<Rightarrow>
     error + pyfloat list" where
  "calculate_proper_p_values linalg_inv cdf model X y =
     (let y_pred = predict_proba model X;
          w = map (\<lambda>p. p * (1 - p)) y_pred
      in case weighted X w of
           Inl e \<Rightarrow> Inl e
         | Inr X_weighted \<Rightarrow>
             (case linalg_inv (gram X_weighted) of
                Inr cov_matrix \<Rightarrow>
                  broadcast2 (wald_p cdf) (coef_0 model) (map np_sqrt (np_diag cov_matrix))
              | Inl LinAlgError \<Rightarrow> Inr (replicate (length (coef_0 model)) (Some (1 / 2)))
              | Inl e \<Rightarrow> Inl e))"

text \<open>
  \<^verbatim>\<open>ConjointResultsAnalysis._calculate_p_values\<close> of \<^verbatim>\<open>conjoint_results_analysis\<close>. The bare
  \<^verbatim>\<open>except\<close> catches every exception of the inversion and sets every standard error to 0.1;
  the p-values are then computed from those.
\<close>

definition calculate_p_values ::
  "(matrix \<Rightarrow> error + matrix) \<Rightarrow> (real \<Rightarrow> real) \<Rightarrow> lr_model \<Rightarrow> matrix \<Rightarrow> int list \<Rightarrow>
     error + pyfloat list" where
  "calculate_p_values linalg_inv cdf model X y =
     (let coef = coef_0 model;
          y_pred = predict_proba model X;
          w = map (\<lambda>p. p * (1 - p)) y_pred
      in case weighted X w of
           Inl e \<Rightarrow> Inl e
         | Inr X_weighted \<Rightarrow>
             (let se = (case linalg_inv (gram X_weighted) of
                          Inr cov_matrix \<Rightarrow> map np_sqrt (np_diag cov_matrix)
                        | Inl e \<Rightarrow> replicate (length coef) (Some (1 / 10)))
              in broadcast2 (wald_p cdf) coef se))"

text \<open>
  For the examples: \<^verbatim>\<open>np.linalg.inv\<close> on 1 x 1 matrices (a singular matrix raises
  LinAlgError), a stand-in for the normal distribution function (increasing from 0 to 1,
  with the value 1/2 at 0, the only point where the examples use it), and the model with
  coefficient 0 and intercept 0, which predicts 1/2 for every row.
\<close>

definition inv_1x1 :: "matrix \<Rightarrow> error + matrix" where
  "inv_1x1 m =
     (case m of
        [[a]] \<Rightarrow> if a = 0 then Inl LinAlgError else Inr [[1 / a]]
      | _ \<Rightarrow> Inl LinAlgError)"

definition example_cdf :: "real \<Rightarrow> real" where
  "example_cdf z = 1 / 2 + z / (2 * (1 + \<bar>z\<bar>))"

definition example_model :: lr_model where
  "example_model = \<lparr>coef_0 = [0], predict_proba = (\<lambda>X. map (\<lambda>xs. 1 / 2) X)\<rparr>"

section \<open>The per-level tests of \<^verbatim>\<open>corrected_attribute_analysis\<close>\<close>

text \<open>
  For one attribute, the function reads three columns of the choice frame: the level shown
  in alternative A, the level shown in alternative B, and the coded choice (1 for A).
\<close>

record obs =
  a_level :: cell
  b_level :: cell
  obs_choice :: int

text \<open>The entry of the result list for one level (the keys of the dict, prefixed).\<close>

record level_result =
  lr_attribute :: string
  lr_level :: string
  lr_choice_share :: real
  lr_effect_pp :: real
  lr_p_value :: pyfloat
  lr_n_observations :: nat
  lr_a_choice_share :: real
  lr_b_choice_share :: real
  lr_present_n :: nat
  lr_absent_n :: nat

text \<open>
  Python's \<^verbatim>\<open>min(a, b)\<close> on floats returns \<open>b\<close> if \<open>b < a\<close> and \<open>a\<close> otherwise; every
  comparison with NaN is false.
\<close>

definition py_min :: "pyfloat \<Rightarrow> pyfloat \<Rightarrow> pyfloat" where
  "py_min a b =
     (case (a, b) of
        (Some x, Some y) \<Rightarrow> if y < x then b else a
      | _ \<Rightarrow> a)"

text \<open>The mean of an integer column.\<close>

definition mean_int :: "int list \<Rightarrow> real" where
  "mean_int xs = real_of_int (sum_list xs) / real (length xs)"

text \<open>
  The body of the loop of \<^verbatim>\<open>analyze_single_attribute_corrected\<close> for one level. The
  parameters \<open>chi2_contingency\<close> and \<open>ttest_ind\<close> are the two scipy tests, each returning its
  p-value or raising; both calls sit in a \<^verbatim>\<open>try\<close> with a bare \<^verbatim>\<open>except\<close>.
\<close>

definition analyze_level ::
  "(int list list \<Rightarrow> error + pyfloat) \<Rightarrow> (int list \<Rightarrow> int list \<Rightarrow> error + pyfloat) \<Rightarrow>
     obs list \<Rightarrow> string \<Rightarrow> string \<Rightarrow> level_result" where
  "analyze_level chi2_contingency ttest_ind choice_data attr lvl =
     (let a_data = filter (\<lambda>r. a_level r = Str lvl) choice_data;
          a_share = (if length a_data > 0 then mean_int (map obs_choice a_data) else 1 / 2);
          b_data = filter (\<lambda>r. b_level r = Str lvl) choice_data;
          b_share = (if length b_data > 0 then mean_int (map (\<lambda>r. 1 - obs_choice r) b_data)
                     else 1 / 2);
          total_observations = length a_data + length b_data;
          overall_choice_share =
            (if total_observations > 0
             then (a_share * real (length a_data) + b_share * real (length b_data)) /
                    real total_observations
             else 1 / 2);
          baseline_share = 1 / 2;
          effect = (overall_choice_share - baseline_share) * 100;
          level_present =
            filter (\<lambda>r. a_level r = Str lvl \<or> b_level r = Str lvl) choice_data;
          level_absent =
            filter (\<lambda>r. a_level r \<noteq> Str lvl \<and> b_level r \<noteq> Str lvl) choice_data;
          p = (if length level_present > 0 \<and> length level_absent > 0
               then (let present_choice_a = sum_list (map obs_choice level_present);
                         present_choice_b = int (length level_present) - present_choice_a;
                         absent_choice_a = sum_list (map obs_choice level_absent);
                         absent_choice_b = int (length level_absent) - absent_choice_a
                     in case chi2_contingency [[present_choice_a, present_choice_b],
                                               [absent_choice_a, absent_choice_b]] of
                          Inr p_chi2 \<Rightarrow> p_chi2
                        | Inl e \<Rightarrow> Some 1)
               else Some 1);
          p = (if length level_present > 0 \<and> length level_absent > 0
               then (case ttest_ind (map obs_choice level_present) (map obs_choice level_absent) of
                       Inr p_value_t \<Rightarrow> py_min p p_value_t
                     | Inl e \<Rightarrow> p)
               else p)
      in \<lparr>lr_attribute = attr, lr_level = lvl, lr_choice_share = overall_choice_share,
          lr_effect_pp = effect, lr_p_value = p, lr_n_observations = total_observations,
          lr_a_choice_share = a_share, lr_b_choice_share = b_share,
          lr_present_n = length level_present, lr_absent_n = length level_absent\<rparr>)"

definition analyze_single_attribute_corrected ::
  "(int list list \<Rightarrow> error + pyfloat) \<Rightarrow> (int list \<Rightarrow> int list \<Rightarrow> error + pyfloat) \<Rightarrow>
     obs list \<Rightarrow> string \<Rightarrow> string list \<Rightarrow> level_result list" where
  "analyze_single_attribute_corrected chi2_contingency ttest_ind choice_data attr levels =
     map (analyze_level chi2_contingency ttest_ind choice_data attr) levels"

text \<open>
  For the examples: three choice sets for the attribute Tutor, and stand-ins for the two
  scipy tests that return a given p-value.
\<close>

definition example_obs :: "obs list" where
  "example_obs =
     [\<lparr>a_level = Str ''Female AI tutor'', b_level = Str ''Male AI tutor'', obs_choice = 1\<rparr>,
      \<lparr>a_level = Str ''Male AI tutor'', b_level = Str ''Female AI tutor'', obs_choice = 0\<rparr>,
      \<lparr>a_level = Str ''Male AI tutor'', b_level = Str ''Male AI tutor'', obs_choice = 1\<rparr>]"

definition chi2_returning :: "real \<Rightarrow> int list list \<Rightarrow> error + pyfloat" where
  "chi2_returning p table = Inr (Some p)"

definition ttest_returning :: "real \<Rightarrow> int list \<Rightarrow> int list \<Rightarrow> error + pyfloat" where
  "ttest_returning p xs ys = Inr (Some p)"

text \<open>
  The two groups of choice sets the tests compare for a level, and the contingency table
  handed to the chi-square test.
\<close>

definition level_present :: "obs list \<Rightarrow> string \<Rightarrow> obs list" where
  "level_present choice_data lvl =
     filter (\<lambda>r. a_level r = Str lvl \<or> b_level r = Str lvl) choice_data"

definition level_absent :: "obs list \<Rightarrow> string \<Rightarrow> obs list" where
  "level_absent choice_data lvl =
     filter (\<lambda>r. a_level r \<noteq> Str lvl \<and> b_level r \<noteq> Str lvl) choice_data"

definition contingency_table :: "obs list \<Rightarrow> string \<Rightarrow> int list list" where
  "contingency_table choice_data lvl =
     [[sum_list (map obs_choice (level_present choice_data lvl)),
       int (length (level_present choice_data lvl)) -
         sum_list (map obs_choice (level_present choice_data lvl))],
      [sum_list (map obs_choice (level_absent choice_data lvl)),
       int (length (level_absent choice_data lvl)) -
         sum_list (map obs_choice (level_absent choice_data lvl))]]"

section \<open>Significance tiers\<close>

text \<open>
  A p-value is a Python float, here a \<open>pyfloat\<close>: a real number or NaN. A decimal literal
  such as \<open>0.001\<close> is the real it denotes. \<^verbatim>\<open>p < c\<close> is false when \<open>p\<close> is NaN.
\<close>

definition py_lt :: "pyfloat \<Rightarrow> real \<Rightarrow> bool" where
  "py_lt p c = (case p of None \<Rightarrow> False | Some v \<Rightarrow> v < c)"

text \<open>
  \<^verbatim>\<open>conditional_logit_analysis.get_significance\<close>; \<^verbatim>\<open>improved_conditional_logit\<close> has a function
  of the same name and body.
\<close>

definition get_significance :: "pyfloat \<Rightarrow> string" where
  "get_significance p_value =
     (if py_lt p_value 0.001 then ''***''
      else if py_lt p_value 0.01 then ''**''
      else if py_lt p_value 0.05 then ''*''
      else if py_lt p_value 0.1 then ''(marginal)''
      else ''n.s.'')"

text \<open>\<^verbatim>\<open>final_robust_conjoint_analysis.get_significance_final\<close>\<close>

definition get_significance_final :: "pyfloat \<Rightarrow> string" where
  "get_significance_final p_value =
     (if py_lt p_value 0.001 then ''***''
      else if py_lt p_value 0.01 then ''**''
      else if py_lt p_value 0.05 then ''*''
      else if py_lt p_value 0.1 then ''(marginal)''
      else ''n.s.'')"

text \<open>
  The variable \<open>significance\<close> that the loop of
  \<^verbatim>\<open>conjoint_results_analysis._create_results_table\<close> sets from \<open>p_val\<close> and appends to the
  effect text; the loop of \<^verbatim>\<open>simple_conjoint_results.create_results_table\<close> sets it by the
  same chain.
\<close>

definition table_significance :: "pyfloat \<Rightarrow> string" where
  "table_significance p_val =
     (if py_lt p_val 0.001 then ''***''
      else if py_lt p_val 0.01 then ''**''
      else if py_lt p_val 0.05 then ''*''
      else if py_lt p_val 0.1 then ''(marginal)''
      else [])"

section \<open>The estimator of \<^verbatim>\<open>final_robust_conjoint_analysis\<close>\<close>

text \<open>
  Selecting columns of the data frame built from a list of records. A record that lacks a
  key has NaN in that column, which is \<open>None\<close> here. \<^verbatim>\<open>frame[col]\<close> raises KeyError for a
  name that is not a column.
\<close>

type_synonym design = "val option list list"

definition frame_select :: "pydict list \<Rightarrow> string list \<Rightarrow> design" where
  "frame_select records cols = map (\<lambda>rcd. map (map_of rcd) cols) records"

definition frame_getitem :: "pydict list \<Rightarrow> string \<Rightarrow> error + val option list" where
  "frame_getitem records col =
     (if col \<in> set (columns records) then Inr (map (\<lambda>rcd. map_of rcd col) records)
      else Inl (KeyError col))"

text \<open>\<^verbatim>\<open>X.iloc[indices]\<close>: the rows at the given positions; a position out of range raises.\<close>

definition iloc :: "'a list \<Rightarrow> nat list \<Rightarrow> error + 'a list" where
  "iloc xs indices = sequence (map (item_at xs) indices)"

text \<open>
  The logistic regression is a parameter: \<open>fit random_state X y\<close> is the coefficient vector
  \<^verbatim>\<open>LogisticRegression(random_state=..., max_iter=1000).fit(X, y).coef_[0]\<close>, or the
  exception the fit raises. The draws of \<^verbatim>\<open>np.random.choice(len(X), size=len(X),
  replace=True)\<close>, which the script does not seed, are a parameter too: \<open>rng i\<close> is the index
  array drawn in iteration \<open>i\<close>.
\<close>

type_synonym fitter = "nat \<Rightarrow> design \<Rightarrow> val option list \<Rightarrow> error + real list"

text \<open>
  One iteration of the bootstrap loop: resample, refit, and on any exception of the fit use
  the original coefficients.
\<close>

definition bootstrap_iteration ::
  "fitter \<Rightarrow> real list \<Rightarrow> design \<Rightarrow> val option list \<Rightarrow> (nat \<Rightarrow> nat list) \<Rightarrow> nat \<Rightarrow>
     error + real list" where
  "bootstrap_iteration fit original_coefs X y rng i =
     (let indices = rng i
      in case iloc X indices of
           Inl e \<Rightarrow> Inl e
         | Inr X_boot \<Rightarrow>
             (case iloc y indices of
                Inl e \<Rightarrow> Inl e
              | Inr y_boot \<Rightarrow>
                  Inr (case fit i X_boot y_boot of
                         Inr boot_coefs \<Rightarrow> boot_coefs
                       | Inl e \<Rightarrow> original_coefs)))"

text \<open>
  \<^verbatim>\<open>np.array\<close> of a list of coefficient vectors needs vectors of one length, and
  \<^verbatim>\<open>bootstrap_coefs[:, i]\<close> needs a two-dimensional array with more than \<open>i\<close> columns (the
  array of an empty list is one-dimensional).
\<close>

definition np_array :: "real list list \<Rightarrow> error + real list list" where
  "np_array rows =
     (if list_all (\<lambda>r. length r = length (hd rows)) rows then Inr rows else Inl ValueError)"

definition array_column :: "real list list \<Rightarrow> nat \<Rightarrow> error + real list" where
  "array_column rows i =
     (if rows = [] \<or> length (hd rows) \<le> i then Inl IndexError
      else Inr (map (\<lambda>r. r ! i) rows))"

text \<open>\<^verbatim>\<open>np.mean\<close> of a Boolean array: the share of True entries.\<close>

definition np_mean_bool :: "bool list \<Rightarrow> real" where
  "np_mean_bool bs = real (length (filter (\<lambda>b. b) bs)) / real (length bs)"

text \<open>The two-tailed value of one coefficient, before the clamp.\<close>

definition two_tailed :: "real list \<Rightarrow> real \<Rightarrow> real" where
  "two_tailed coef_dist c =
     2 * min (np_mean_bool (map (\<lambda>b. b \<ge> \<bar>c\<bar>) coef_dist))
             (np_mean_bool (map (\<lambda>b. b \<le> - \<bar>c\<bar>) coef_dist))"

text \<open>\<^verbatim>\<open>calculate_bootstrap_p_values(model, X, y, n_bootstrap)\<close>\<close>

definition calculate_bootstrap_p_values ::
  "fitter \<Rightarrow> real list \<Rightarrow> design \<Rightarrow> val option list \<Rightarrow> nat \<Rightarrow> (nat \<Rightarrow> nat list) \<Rightarrow>
     error + real list" where
  "calculate_bootstrap_p_values fit original_coefs X y n_bootstrap rng =
     (case sequence (map (bootstrap_iteration fit original_coefs X y rng) [0..<n_bootstrap]) of
        Inl e \<Rightarrow> Inl e
      | Inr rows \<Rightarrow>
          (case np_array rows of
             Inl e \<Rightarrow> Inl e
           | Inr bootstrap_coefs \<Rightarrow>
               sequence (map (\<lambda>i.
                  case array_column bootstrap_coefs i of
                    Inl e \<Rightarrow> Inl e
                  | Inr coef_dist \<Rightarrow>
                      Inr (max (two_tailed coef_dist (original_coefs ! i)) (1 / 10 ^ 6)))
                  [0..<length original_coefs])))"

text \<open>\<^verbatim>\<open>calculate_pp_effects_final\<close>: the i-th coefficient times 25.\<close>

definition calculate_pp_effects_final :: "real list \<Rightarrow> string list \<Rightarrow> error + real list" where
  "calculate_pp_effects_final coefficients feature_names =
     sequence (map (\<lambda>i.
        case item_at coefficients i of
          Inl e \<Rightarrow> Inl e
        | Inr coef \<Rightarrow> Inr (coef * 25))
        [0..<length feature_names])"

text \<open>One entry of the result list of \<^verbatim>\<open>run_robust_analysis\<close> (the keys of the dict, prefixed).\<close>

record robust_result =
  rr_feature :: string
  rr_coefficient :: real
  rr_p_value :: real
  rr_pp_effect :: real
  rr_significance :: string

text \<open>The loop that builds the result list.\<close>

definition robust_results ::
  "string list \<Rightarrow> real list \<Rightarrow> real list \<Rightarrow> real list \<Rightarrow> error + robust_result list" where
  "robust_results cols coefficients p_values pp_effects =
     sequence (map (\<lambda>(i, feature).
        case item_at coefficients i of
          Inl e \<Rightarrow> Inl e
        | Inr c \<Rightarrow>
            (case item_at p_values i of
               Inl e \<Rightarrow> Inl e
             | Inr p \<Rightarrow>
                 (case item_at pp_effects i of
                    Inl e \<Rightarrow> Inl e
                  | Inr pp \<Rightarrow>
                      Inr \<lparr>rr_feature = feature, rr_coefficient = c, rr_p_value = p,
                           rr_pp_effect = pp,
                           rr_significance = get_significance_final (Some p)\<rparr>)))
        (enumerate 0 cols))"

text \<open>
  \<^verbatim>\<open>run_robust_analysis(choice_data)\<close>: the model is fitted with \<^verbatim>\<open>random_state=42\<close>, the
  bootstrap runs 1000 iterations.
\<close>

definition run_robust_analysis ::
  "fitter \<Rightarrow> pydict list \<Rightarrow> (nat \<Rightarrow> nat list) \<Rightarrow> error + robust_result list" where
  "run_robust_analysis fit choice_data rng =
     (let cols = feature_cols choice_data;
          X = frame_select choice_data cols
      in case frame_getitem choice_data ''choice'' of
           Inl e \<Rightarrow> Inl e
         | Inr y \<Rightarrow>
             (case fit 42 X y of
                Inl e \<Rightarrow> Inl e
              | Inr coefficients \<Rightarrow>
                  (case calculate_bootstrap_p_values fit coefficients X y 1000 rng of
                     Inl e \<Rightarrow> Inl e
                   | Inr p_values \<Rightarrow>
                       (case calculate_pp_effects_final coefficients cols of
                          Inl e \<Rightarrow> Inl e
                        | Inr pp_effects \<Rightarrow>
                            robust_results cols coefficients p_values pp_effects))))"

section \<open>A design whose columns are all zero\<close>

text \<open>
  A task in which both alternatives show the same level of every attribute, and the record
  the builder makes of it: every design column is 0.
\<close>

definition same_row :: "cell \<Rightarrow> row" where
  "same_row choice = map_of
     [(''Grade'', Str ''5''),
      (''Task1_choice'', choice),
      (''A_Tutor1'', Str ''Female AI tutor''),
      (''B_Tutor1'', Str ''Female AI tutor''),
      (''A_Color_palette1'', Str ''Tech & bold (deep blue / black / neon)''),
      (''B_Color_palette1'', Str ''Tech & bold (deep blue / black / neon)''),
      (''A_Pricing1'', Str ''Free trial + $4.99/month''),
      (''B_Pricing1'', Str ''Free trial + $4.99/month''),
      (''A_Message_success_1'',
         Str (''Great job '' @ em_dash @ '' your effort and persistence helped you solve this!'')),
      (''B_Message_success_1'',
         Str (''Great job '' @ em_dash @ '' your effort and persistence helped you solve this!'')),
      (''A_Message_failure_1'',
         Str (''This design didn'' @ rsquo @ ''t launch successfully. Here is what went wrong.'')),
      (''B_Message_failure_1'',
         Str (''This design didn'' @ rsquo @ ''t launch successfully. Here is what went wrong.'')),
      (''A_Storytelling1'',
         Str ''No story: Just design and test rockets in a sandbox-style game.''),
      (''B_Storytelling1'',
         Str ''No story: Just design and test rockets in a sandbox-style game.''),
      (''A_Role_play1'',
         Str ''No specific role: Just design a rocket and see how it works.''),
      (''B_Role_play1'',
         Str ''No specific role: Just design a rocket and see how it works.'')]"

definition zero_record :: "int \<Rightarrow> int \<Rightarrow> pydict" where
  "zero_record respondent c =
     [(''respondent_id'', I respondent), (''task'', I 1), (''choice'', I c),
      (''grade'', C (Str ''5'')),
      (''Tutor_diff'', I 0), (''Color_palette_diff'', I 0),
      (''Pricing_free'', I 0), (''Pricing_4.99'', I 0), (''Pricing_7.99'', I 0),
      (''Pricing_9.99'', I 0), (''Pricing_12.99'', I 0),
      (''Message_success__diff'', I 0), (''Message_failure__diff'', I 0),
      (''Storytelling_diff'', I 0), (''Role_play_diff'', I 0)]"

text \<open>Two such choice sets, one answered A and one answered B.\<close>

definition zero_choice_data :: "pydict list" where
  "zero_choice_data = [zero_record 0 1, zero_record 1 0]"

text \<open>
  What the logistic regression returns for a design whose entries are all 0: the zero
  coefficient vector, one entry per column (the likelihood does not depend on the
  coefficients, and the penalty is least at 0). The examples apply it to such designs only.
\<close>

definition zero_design_fit :: fitter where
  "zero_design_fit random_state X y = Inr (replicate (length (hd X)) 0)"

text \<open>A stream of bootstrap draws for a frame of two rows.\<close>

definition draws_a :: "nat \<Rightarrow> nat list" where
  "draws_a i = [0, 1]"

text \<open>The result list of \<^verbatim>\<open>run_robust_analysis\<close> on those two choice sets.\<close>

definition zero_results :: "robust_result list" where
  "zero_results =
     map (\<lambda>feature. \<lparr>rr_feature = feature, rr_coefficient = 0, rr_p_value = 2,
                       rr_pp_effect = 0, rr_significance = ''n.s.''\<rparr>) robust_features"

section \<open>The estimator of \<^verbatim>\<open>improved_conditional_logit\<close>\<close>

text \<open>\<^verbatim>\<open>s.replace(old, new)\<close>: every occurrence of \<open>old\<close>, from left to right.\<close>

function py_replace :: "string \<Rightarrow> string \<Rightarrow> string \<Rightarrow> string" where
  "py_replace old new s =
     (if old = [] then new @ concat (map (\<lambda>c. c # new) s)
      else if s = [] then []
      else if prefix old s then new @ py_replace old new (drop (length old) s)
      else hd s # py_replace old new (tl s))"
  by pat_completeness auto
termination
  by (relation "measure (\<lambda>(old, new, s). length s)") auto

declare py_replace.simps [simp del]

text \<open>\<^verbatim>\<open>get_level_info\<close>: the attribute and the level text of a level code, or \<open>None\<close>.\<close>

definition level_mapping :: "(string \<times> string \<times> string) list" where
  "level_mapping =
    [(''female_tutor'', ''Tutor'', ''Female AI tutor''),
     (''male_tutor'', ''Tutor'', ''Male AI tutor''),
     (''friendly_colors'', ''Color_palette'', ''Friendly & warm (coral / lavender / peach)''),
     (''tech_colors'', ''Color_palette'', ''Tech & bold (deep blue / black / neon)''),
     (''school_pays'', ''Pricing'', ''School pays (free for families)''),
     (''pricing_4.99'', ''Pricing'', ''Free trial + $4.99/month''),
     (''pricing_7.99'', ''Pricing'', ''Free trial + $7.99/month''),
     (''pricing_9.99'', ''Pricing'', ''Free trial + $9.99/month''),
     (''pricing_12.99'', ''Pricing'', ''Free trial + $12.99/month''),
     (''growth_message'', ''Message_success_'',
        ''Great job '' @ em_dash @ '' your effort and persistence helped you solve this!''),
     (''brilliance_message'', ''Message_success_'',
        ''You solved it so quickly '' @ em_dash @
        '' you must have a really special talent for science!''),
     (''supportive_message'', ''Message_failure_'',
        ''That didn'' @ [CHR 0x27] @ ''t work, but mistakes are how scientists learn. Let'' @
        [CHR 0x27] @ ''s try another design.''),
     (''neutral_message'', ''Message_failure_'',
        ''This design didn'' @ [CHR 0x27] @
        ''t launch successfully. Here is what went wrong.''),
     (''space_rescue_story'', ''Storytelling'',
        ''Space rescue story: '' @ [CHR 0x22] @
        ''Your spaceship must deliver medicine to astronauts stranded on the Moon '' @
        ''before their oxygen runs out.'' @ [CHR 0x22]),
     (''no_story'', ''Storytelling'',
        ''No story: Just design and test rockets in a sandbox-style game.''),
     (''hero_astronaut'', ''Role_play'',
        ''Hero astronaut: You are the astronaut in charge '' @ em_dash @
        '' the team is counting on you to complete this mission.''),
     (''no_specific_role'', ''Role_play'',
        ''No specific role: Just design a rocket and see how it works.'')]"

definition get_level_info :: "string \<Rightarrow> (string \<times> string) option" where
  "get_level_info level_code = map_of level_mapping level_code"

text \<open>
  \<^verbatim>\<open>choice_data[feature]\<close> for a column of the frame, and its \<^verbatim>\<open>.sum()\<close>: missing values are
  skipped, and text cannot be added to numbers.
\<close>

definition frame_column :: "pydict list \<Rightarrow> string \<Rightarrow> val option list" where
  "frame_column records col = map (\<lambda>rcd. map_of rcd col) records"

fun column_sum :: "val option list \<Rightarrow> error + int" where
  "column_sum [] = Inr 0"
| "column_sum (None # vs) = column_sum vs"
| "column_sum (Some (C NaN) # vs) = column_sum vs"
| "column_sum (Some (C (Str s)) # vs) = Inl TypeError"
| "column_sum (Some (I d) # vs) =
     (case column_sum vs of Inl e \<Rightarrow> Inl e | Inr col_total \<Rightarrow> Inr (d + col_total))"

text \<open>
  \<^verbatim>\<open>.astype(float)\<close> and \<^verbatim>\<open>.astype(int)\<close> on one entry. A text entry is parsed by Python's
  \<^verbatim>\<open>float(s)\<close> and \<^verbatim>\<open>int(s)\<close>, which are the parameters \<open>float_of_text\<close> and \<open>int_of_text\<close>
  (the number the text denotes, or the exception); a missing entry is NaN, which is no
  integer.
\<close>

fun to_float :: "(string \<Rightarrow> error + pyfloat) \<Rightarrow> val option \<Rightarrow> error + pyfloat" where
  "to_float float_of_text None = Inr None"
| "to_float float_of_text (Some (C NaN)) = Inr None"
| "to_float float_of_text (Some (C (Str s))) = float_of_text s"
| "to_float float_of_text (Some (I d)) = Inr (Some (real_of_int d))"

fun to_int :: "(string \<Rightarrow> error + int) \<Rightarrow> val option \<Rightarrow> error + int" where
  "to_int int_of_text None = Inl ValueError"
| "to_int int_of_text (Some (C NaN)) = Inl ValueError"
| "to_int int_of_text (Some (C (Str s))) = int_of_text s"
| "to_int int_of_text (Some (I d)) = Inr d"


text \<open>The columns whose names end in \<open>_diff\<close>.\<close>

definition diff_features :: "pydict list \<Rightarrow> string list" where
  "diff_features choice_data = filter (\<lambda>col. endswith col ''_diff'') (columns choice_data)"

text \<open>
  The collinearity loop: a feature stays when the absolute value of its column sum is above
  1e-10, and goes to the collinear list otherwise. The result is the pair of the two lists.
\<close>

fun select_features :: "pydict list \<Rightarrow> string list \<Rightarrow> error + string list \<times> string list" where
  "select_features choice_data [] = Inr ([], [])"
| "select_features choice_data (feature # rest) =
     (case column_sum (frame_column choice_data feature) of
        Inl e \<Rightarrow> Inl e
      | Inr col_total \<Rightarrow>
          (case select_features choice_data rest of
             Inl e \<Rightarrow> Inl e
           | Inr (final_features, collinear_features) \<Rightarrow>
               if \<bar>real_of_int col_total\<bar> > 1 / 10 ^ 10
               then Inr (feature # final_features, collinear_features)
               else Inr (final_features, feature # collinear_features)))"

text \<open>
  What the function hands to the fitter: the selected features, the excluded ones, the
  matrix \<^verbatim>\<open>X = choice_data[final_features].astype(float)\<close> and the vector
  \<^verbatim>\<open>y = choice_data['chosen_a'].astype(int)\<close>.
\<close>

definition fitter_input ::
  "(string \<Rightarrow> error + pyfloat) \<Rightarrow> (string \<Rightarrow> error + int) \<Rightarrow> pydict list \<Rightarrow>
     error + string list \<times> string list \<times> pyfloat list list \<times> int list" where
  "fitter_input float_of_text int_of_text choice_data =
     (case select_features choice_data (diff_features choice_data) of
        Inl e \<Rightarrow> Inl e
      | Inr (final_features, collinear_features) \<Rightarrow>
          (case sequence (map (\<lambda>r. sequence (map (to_float float_of_text) r))
                            (frame_select choice_data final_features)) of
             Inl e \<Rightarrow> Inl e
           | Inr X \<Rightarrow>
               (case frame_getitem choice_data ''chosen_a'' of
                  Inl e \<Rightarrow> Inl e
                | Inr chosen \<Rightarrow>
                    (case sequence (map (to_int int_of_text) chosen) of
                       Inl e \<Rightarrow> Inl e
                     | Inr y \<Rightarrow> Inr (final_features, collinear_features, X, y)))))"

text \<open>One entry of the result list (the keys of the dict, prefixed).\<close>

record estimate =
  est_attribute :: string
  est_level :: string
  est_level_code :: string
  est_coefficient :: real
  est_std_error :: real
  est_p_value :: real
  est_conf_int_lower :: real
  est_conf_int_upper :: real
  est_pp_effect :: pyfloat
  est_significance :: string

text \<open>
  The first result loop: one entry per estimated feature whose code \<^verbatim>\<open>get_level_info\<close>
  knows; \<open>None\<close> marks a feature that the loop passes over.
\<close>

definition estimated_row ::
  "fit_result \<Rightarrow> pyfloat list \<Rightarrow> nat \<Rightarrow> string \<Rightarrow> error + estimate option" where
  "estimated_row result pp_effects i feature =
     (let original_feature = py_replace ''_diff'' [] feature
      in case get_level_info original_feature of
           None \<Rightarrow> Inr None
         | Some (attr, lvl) \<Rightarrow>
             (case item_at (params result) i of
                Inl e \<Rightarrow> Inl e
              | Inr coefficient \<Rightarrow>
             (case item_at (bse result) i of
                Inl e \<Rightarrow> Inl e
              | Inr std_error \<Rightarrow>
             (case item_at (pvalues result) i of
                Inl e \<Rightarrow> Inl e
              | Inr p \<Rightarrow>
             (case item_at (conf_int result) i of
                Inl e \<Rightarrow> Inl e
              | Inr (lower, upper) \<Rightarrow>
             (case item_at pp_effects i of
                Inl e \<Rightarrow> Inl e
              | Inr pp \<Rightarrow>
                  Inr (Some \<lparr>est_attribute = attr, est_level = lvl,
                             est_level_code = original_feature,
                             est_coefficient = coefficient, est_std_error = std_error,
                             est_p_value = p, est_conf_int_lower = lower,
                             est_conf_int_upper = upper, est_pp_effect = pp,
                             est_significance = get_significance (Some p)\<rparr>)))))))"

text \<open>The second result loop: the placeholder entry of an excluded feature.\<close>

definition placeholder :: "string \<Rightarrow> string \<Rightarrow> string \<Rightarrow> estimate" where
  "placeholder attr lvl original_feature =
     \<lparr>est_attribute = attr, est_level = lvl, est_level_code = original_feature,
      est_coefficient = 0, est_std_error = 0, est_p_value = 1, est_conf_int_lower = 0,
      est_conf_int_upper = 0, est_pp_effect = Some 0,
      est_significance = ''excluded (collinear)''\<rparr>"

definition placeholder_rows :: "string list \<Rightarrow> estimate list" where
  "placeholder_rows collinear_features =
     concat (map (\<lambda>feature.
        let original_feature = py_replace ''_diff'' [] feature
        in case get_level_info original_feature of
             None \<Rightarrow> []
           | Some (attr, lvl) \<Rightarrow> [placeholder attr lvl original_feature])
        collinear_features)"

text \<open>The dict that \<^verbatim>\<open>run_conditional_logit_model\<close> returns.\<close>

record logit_output =
  out_results :: "estimate list"
  out_model_result :: fit_result
  out_final_features :: "string list"
  out_collinear_features :: "string list"

text \<open>
  \<^verbatim>\<open>run_conditional_logit_model(choice_data)\<close>. The parameter \<open>logit_fit\<close> is
  \<^verbatim>\<open>sm.Logit(y, X).fit(disp=0)\<close>: the fitted result, or the exception the fit raises.
\<close>

definition run_conditional_logit_model ::
  "(pyfloat list list \<Rightarrow> int list \<Rightarrow> error + fit_result) \<Rightarrow>
   (string \<Rightarrow> error + pyfloat) \<Rightarrow> (string \<Rightarrow> error + int) \<Rightarrow> pydict list \<Rightarrow>
     error + logit_output" where
  "run_conditional_logit_model logit_fit float_of_text int_of_text choice_data =
     (case fitter_input float_of_text int_of_text choice_data of
        Inl e \<Rightarrow> Inl e
      | Inr (final_features, collinear_features, X, y) \<Rightarrow>
          (case logit_fit X y of
             Inl e \<Rightarrow> Inl e
           | Inr result \<Rightarrow>
               (case calculate_ame result final_features of
                  Inl e \<Rightarrow> Inl e
                | Inr pp_effects \<Rightarrow>
                    (case sequence (map (\<lambda>(i, feature). estimated_row result pp_effects i feature)
                                      (enumerate 0 final_features)) of
                       Inl e \<Rightarrow> Inl e
                     | Inr rows \<Rightarrow>
                         Inr \<lparr>out_results =
                                concat (map (\<lambda>r. case r of None \<Rightarrow> [] | Some x \<Rightarrow> [x]) rows) @
                                placeholder_rows collinear_features,
                              out_model_result = result,
                              out_final_features = final_features,
                              out_collinear_features = collinear_features\<rparr>))))"

text \<open>
  For the examples: three choice sets with two difference columns. The female tutor is in
  A twice and in B once, so its column sums to 1; the school price is in A once and in B
  once, so its column sums to 0. The fitted result stands for what the fitter returns for
  the one remaining column.
\<close>

definition example_choice_data :: "pydict list" where
  "example_choice_data =
     [[(''chosen_a'', I 1), (''female_tutor_diff'', I 1), (''school_pays_diff'', I 1)],
      [(''chosen_a'', I 0), (''female_tutor_diff'', I (- 1)), (''school_pays_diff'', I (- 1))],
      [(''chosen_a'', I 1), (''female_tutor_diff'', I 1), (''school_pays_diff'', I 0)]]"

definition example_logit_fit :: "pyfloat list list \<Rightarrow> int list \<Rightarrow> error + fit_result" where
  "example_logit_fit X y =
     Inr \<lparr>params = [2], pvalues = [1 / 5], bse = [3 / 2], conf_int = [(- 1, 5)],
          predict = map (\<lambda>r. 1 / 2) X\<rparr>"

text \<open>The example holds no text, so any parsers do; these two reject every text.\<close>

definition no_float :: "string \<Rightarrow> error + pyfloat" where
  "no_float s = Inl ValueError"

definition no_int :: "string \<Rightarrow> error + int" where
  "no_int s = Inl ValueError"

text \<open>The dict the function returns for the example.\<close>

definition example_output :: logit_output where
  "example_output =
     \<lparr>out_results =
        [\<lparr>est_attribute = ''Tutor'', est_level = ''Female AI tutor'',
          est_level_code = ''female_tutor'', est_coefficient = 2, est_std_error = 3 / 2,
          est_p_value = 1 / 5, est_conf_int_lower = - 1, est_conf_int_upper = 5,
          est_pp_effect = Some 50, est_significance = ''n.s.''\<rparr>,
         placeholder ''Pricing'' ''School pays (free for families)'' ''school_pays''],
      out_model_result =
        \<lparr>params = [2], pvalues = [1 / 5], bse = [3 / 2], conf_int = [(- 1, 5)],
         predict = [1 / 2, 1 / 2, 1 / 2]\<rparr>,
      out_final_features = [''female_tutor_diff''],
      out_collinear_features = [''school_pays_diff'']\<rparr>"

section \<open>Properties of the builder of \<^verbatim>\<open>final_robust_conjoint_analysis\<close>\<close>

lemma keys_setitem: "map fst (setitem k v d) = insert_key k (map fst d)"
  unfolding setitem_def insert_key_def by (simp only: update_keys)

lemma map_of_setitem: "map_of (setitem k v d) k' = (if k' = k then Some v else map_of d k')"
  unfolding setitem_def by (simp add: update_conv')

lemma coding_scalar_ex:
  "attr \<noteq> ''Pricing'' \<Longrightarrow> \<exists>n. get_effects_coding_final v attr = Scalar n"
  by (simp add: get_effects_coding_final_def Let_def)

lemma coding_scalar:
  assumes "attr \<noteq> ''Pricing''"
  obtains n where "get_effects_coding_final v attr = Scalar n"
  using coding_scalar_ex [OF assms, of v] by (elim exE) (rule that)

lemma coding_levels_ex:
  "\<exists>l. get_effects_coding_final v ''Pricing'' = Levels l \<and>
       map fst l = [''free'', ''4.99'', ''7.99'', ''9.99'', ''12.99'']"
  by (simp add: get_effects_coding_final_def Let_def)

lemma coding_levels:
  obtains l where "get_effects_coding_final v ''Pricing'' = Levels l"
    and "map fst l = [''free'', ''4.99'', ''7.99'', ''9.99'', ''12.99'']"
  using coding_levels_ex [of v] by (elim exE conjE) (rule that)

lemma diff_entries_keys:
  obtains es where
    "diff_entries attr (get_effects_coding_final a attr) (get_effects_coding_final b attr) = Inr es"
    and "map fst es = attr_keys attr"
proof (cases "attr = ''Pricing''")
  case True
  obtain la where la: "get_effects_coding_final a ''Pricing'' = Levels la"
    and ka: "map fst la = [''free'', ''4.99'', ''7.99'', ''9.99'', ''12.99'']"
    by (rule coding_levels)
  obtain lb where lb: "get_effects_coding_final b ''Pricing'' = Levels lb"
    by (rule coding_levels)
  define f where "f = (\<lambda>(level, effect :: int). (''Pricing'' @ ''_'' @ level,
             effect - (case map_of lb level of Some e \<Rightarrow> e | None \<Rightarrow> 0)))"
  have 1: "diff_entries ''Pricing'' (Levels la) (Levels lb) = Inr (map f la)"
    unfolding f_def by (rule diff_entries.simps(1))
  have "map fst (map f la) = map (\<lambda>level. ''Pricing'' @ ''_'' @ level) (map fst la)"
    unfolding f_def by (induction la) (simp_all add: split_beta)
  also have "\<dots> = attr_keys ''Pricing''"
    unfolding ka attr_keys_def by simp
  finally have 2: "map fst (map f la) = attr_keys ''Pricing''" .
  show ?thesis
    by (rule that [of "map f la"]) (simp_all only: True la lb 1 2)
next
  case False
  obtain m where m: "get_effects_coding_final a attr = Scalar m"
    by (rule coding_scalar [OF False])
  obtain n where n: "get_effects_coding_final b attr = Scalar n"
    by (rule coding_scalar [OF False])
  have k: "attr_keys attr = [attr @ ''_diff'']"
    using False by (simp only: attr_keys_def if_False)
  show ?thesis
    by (rule that [of "[(attr @ ''_diff'', m - n)]"]) (simp_all only: m n k diff_entries.simps list.map fst_conv)
qed

lemma keys_fold_setitem:
  "map fst (fold (\<lambda>(k, d). setitem k (I d)) es rcd) = fold insert_key (map fst es) (map fst rcd)"
  by (induction es arbitrary: rcd) (simp_all add: keys_setitem split_beta)

lemma map_of_fold_setitem:
  "k' \<notin> fst ` set es \<Longrightarrow> map_of (fold (\<lambda>(k, d). setitem k (I d)) es rcd) k' = map_of rcd k'"
  by (induction es arbitrary: rcd) (simp_all add: map_of_setitem split_beta)

lemma add_attributes_keys:
  "add_attributes attrs r task rcd = Inr rcd' \<Longrightarrow>
   map fst rcd' = fold insert_key (concat (map attr_keys attrs)) (map fst rcd)"
proof (induction attrs arbitrary: rcd)
  case Nil
  then show ?case by simp
next
  case (Cons attr attrs)
  from Cons.prems obtain a b where
    a: "getitem r (''A_'' @ attr @ str_nat task) = Inr a" and
    b: "getitem r (''B_'' @ attr @ str_nat task) = Inr b"
    by (simp split: sum.splits)
  obtain es where es: "diff_entries attr (get_effects_coding_final a attr) (get_effects_coding_final b attr) = Inr es"
    and ks: "map fst es = attr_keys attr"
    by (rule diff_entries_keys)
  from Cons.prems a b es
  have "add_attributes attrs r task (fold (\<lambda>(k, d). setitem k (I d)) es rcd) = Inr rcd'"
    by simp
  from Cons.IH [OF this] show ?case
    by (simp add: keys_fold_setitem ks)
qed

lemma add_attributes_step:
  assumes "add_attributes (attr # attrs) r task rcd = Inr rcd'"
  obtains es where "map fst es = attr_keys attr"
    and "add_attributes attrs r task (fold (\<lambda>(k, d). setitem k (I d)) es rcd) = Inr rcd'"
proof -
  from assms obtain a b where
    a: "getitem r (''A_'' @ attr @ str_nat task) = Inr a" and
    b: "getitem r (''B_'' @ attr @ str_nat task) = Inr b"
    by (simp split: sum.splits)
  obtain es where es: "diff_entries attr (get_effects_coding_final a attr) (get_effects_coding_final b attr) = Inr es"
    and ks: "map fst es = attr_keys attr"
    by (rule diff_entries_keys)
  from assms a b es
  have "add_attributes attrs r task (fold (\<lambda>(k, d). setitem k (I d)) es rcd) = Inr rcd'"
    by simp
  with ks show ?thesis by (rule that)
qed

lemma add_attributes_other:
  "add_attributes attrs r task rcd = Inr rcd' \<Longrightarrow> k' \<notin> set (concat (map attr_keys attrs)) \<Longrightarrow>
   map_of rcd' k' = map_of rcd k'"
proof (induction attrs arbitrary: rcd)
  case Nil
  then show ?case by simp
next
  case (Cons attr attrs)
  from Cons.prems(1) obtain es where ks: "map fst es = attr_keys attr"
    and step: "add_attributes attrs r task (fold (\<lambda>(k, d). setitem k (I d)) es rcd) = Inr rcd'"
    by (rule add_attributes_step)
  from Cons.prems(2) have 1: "k' \<notin> set (attr_keys attr)" and 2: "k' \<notin> set (concat (map attr_keys attrs))"
    by simp_all
  from 1 have "k' \<notin> fst ` set es"
    unfolding ks [symmetric] by simp
  then have "map_of (fold (\<lambda>(k, d). setitem k (I d)) es rcd) k' = map_of rcd k'"
    by (rule map_of_fold_setitem)
  with Cons.IH [OF step 2] show ?case by simp
qed

lemma getitem_Inl: "getitem r k = Inl e \<Longrightarrow> e = KeyError k \<and> r k = None"
  by (simp add: getitem_def split: option.splits)

lemma add_attributes_error:
  "add_attributes attrs r task rcd = Inl e \<Longrightarrow> \<exists>k. e = KeyError k \<and> r k = None"
proof (induction attrs arbitrary: rcd)
  case Nil
  then show ?case by simp
next
  case (Cons attr attrs)
  show ?case
  proof (cases "getitem r (''A_'' @ attr @ str_nat task)")
    case (Inl e1)
    with Cons.prems have "e1 = e" by simp
    with Inl show ?thesis by (intro exI) (rule getitem_Inl, simp)
  next
    case (Inr a)
    show ?thesis
    proof (cases "getitem r (''B_'' @ attr @ str_nat task)")
      case (Inl e2)
      with Inr Cons.prems have "e2 = e" by simp
      with Inl show ?thesis by (intro exI) (rule getitem_Inl, simp)
    next
      case b: (Inr b)
      obtain es where "diff_entries attr (get_effects_coding_final a attr) (get_effects_coding_final b attr) = Inr es"
        by (rule diff_entries_keys)
      with Inr b Cons.prems
      have "add_attributes attrs r task (fold (\<lambda>(k, d). setitem k (I d)) es rcd) = Inl e"
        by simp
      then show ?thesis by (rule Cons.IH)
    qed
  qed
qed

lemma choice_record_final_Inr:
  assumes "choice_record_final idx r task = Inr rcd"
  obtains c g where "r (''Task'' @ str_nat task @ ''_choice'') = Some c"
    and "r ''Grade'' = Some g"
    and "add_attributes attributes r task
            [(''respondent_id'', I (int idx)), (''task'', I (int task)),
             (''choice'', I (if c = Str ''A'' then 1 else 0)), (''grade'', C g)] = Inr rcd"
proof -
  from assms obtain c where c: "r (''Task'' @ str_nat task @ ''_choice'') = Some c"
    by (cases "r (''Task'' @ str_nat task @ ''_choice'')") (simp_all add: choice_record_final_def getitem_def)
  from assms c obtain g where g: "r ''Grade'' = Some g"
    by (cases "r ''Grade''") (simp_all add: choice_record_final_def getitem_def)
  from assms c g have "add_attributes attributes r task
            [(''respondent_id'', I (int idx)), (''task'', I (int task)),
             (''choice'', I (if c = Str ''A'' then 1 else 0)), (''grade'', C g)] = Inr rcd"
    by (simp add: choice_record_final_def getitem_def)
  with c g show ?thesis by (rule that)
qed

lemma choice_record_final_Inl:
  assumes "choice_record_final idx r task = Inl e"
  shows "\<exists>k. e = KeyError k \<and> r k = None"
proof (cases "getitem r (''Task'' @ str_nat task @ ''_choice'')")
  case (Inl e1)
  with assms have "e1 = e" by (simp add: choice_record_final_def)
  with Inl show ?thesis by (intro exI) (rule getitem_Inl, simp)
next
  case c: (Inr c)
  show ?thesis
  proof (cases "getitem r ''Grade''")
    case (Inl e2)
    with c assms have "e2 = e" by (simp add: choice_record_final_def)
    with Inl show ?thesis by (intro exI) (rule getitem_Inl, simp)
  next
    case (Inr g)
    with c assms have "add_attributes attributes r task
            [(''respondent_id'', I (int idx)), (''task'', I (int task)),
             (''choice'', I (if c = Str ''A'' then 1 else 0)), (''grade'', C g)] = Inl e"
      by (simp add: choice_record_final_def)
    then show ?thesis by (rule add_attributes_error)
  qed
qed

lemma attribute_keys:
  "concat (map attr_keys attributes) = [''Tutor_diff'', ''Color_palette_diff'',
     ''Pricing_free'', ''Pricing_4.99'', ''Pricing_7.99'', ''Pricing_9.99'', ''Pricing_12.99'',
     ''Message_success__diff'', ''Message_failure__diff'', ''Storytelling_diff'', ''Role_play_diff'']"
  by (simp add: attributes_def attr_keys_def)

lemma keys_final:
  assumes "choice_record_final idx r task = Inr rcd"
  shows "map fst rcd = [''respondent_id'', ''task'', ''choice'', ''grade'', ''Tutor_diff'', ''Color_palette_diff'',
     ''Pricing_free'', ''Pricing_4.99'', ''Pricing_7.99'', ''Pricing_9.99'', ''Pricing_12.99'',
     ''Message_success__diff'', ''Message_failure__diff'', ''Storytelling_diff'', ''Role_play_diff'']"
proof -
  from assms obtain c g where "add_attributes attributes r task
            [(''respondent_id'', I (int idx)), (''task'', I (int task)),
             (''choice'', I (if c = Str ''A'' then 1 else 0)), (''grade'', C g)] = Inr rcd"
    by (rule choice_record_final_Inr)
  from add_attributes_keys [OF this] show ?thesis
    unfolding attribute_keys by (simp add: insert_key_def)
qed

lemma example_row_nan:
  "choice_record_final 0 (example_row NaN) 1 = Inr example_record"
  by code_simp

lemma example_row_other:
  "choice_record_final 0 (example_row (Str ''C'')) 1 = Inr example_record"
  by code_simp

lemma example_row_b:
  "choice_record_final 0 (example_row (Str ''B'')) 1 = Inr example_record"
  by code_simp

lemma example_row_no_a:
  "example_row NaN (''Task'' @ str_nat 1 @ ''_choice'') \<noteq> Some (Str ''A'')"
  by code_simp

lemma empty_row_fails:
  "choice_record_final 0 Map.empty 1 = Inl (KeyError ''Task1_choice'')"
  by code_simp

lemma add_attributes_error_key:
  "add_attributes attrs r task rcd = Inl e \<Longrightarrow>
   \<exists>k\<in>set (concat (map (\<lambda>attr. [''A_'' @ attr @ str_nat task, ''B_'' @ attr @ str_nat task])
                        attrs)). e = KeyError k \<and> r k = None"
proof (induction attrs arbitrary: rcd)
  case Nil
  then show ?case by simp
next
  case (Cons attr attrs)
  show ?case
  proof (cases "getitem r (''A_'' @ attr @ str_nat task)")
    case (Inl e1)
    with Cons.prems have "e1 = e" by simp
    with Inl have "e = KeyError (''A_'' @ attr @ str_nat task) \<and> r (''A_'' @ attr @ str_nat task) = None"
      by (intro getitem_Inl) simp
    then show ?thesis by simp
  next
    case (Inr a)
    show ?thesis
    proof (cases "getitem r (''B_'' @ attr @ str_nat task)")
      case (Inl e2)
      with Inr Cons.prems have "e2 = e" by simp
      with Inl have "e = KeyError (''B_'' @ attr @ str_nat task) \<and> r (''B_'' @ attr @ str_nat task) = None"
        by (intro getitem_Inl) simp
      then show ?thesis by simp
    next
      case b: (Inr b)
      obtain es where "diff_entries attr (get_effects_coding_final a attr) (get_effects_coding_final b attr) = Inr es"
        by (rule diff_entries_keys)
      with Inr b Cons.prems
      have "add_attributes attrs r task (fold (\<lambda>(k, d). setitem k (I d)) es rcd) = Inl e"
        by simp
      from Cons.IH [OF this] show ?thesis by simp
    qed
  qed
qed

lemma choice_record_final_error_key:
  assumes "choice_record_final idx r task = Inl e"
  shows "\<exists>k\<in>set (columns_read task). e = KeyError k \<and> r k = None"
proof (cases "getitem r (''Task'' @ str_nat task @ ''_choice'')")
  case (Inl e1)
  with assms have "e1 = e" by (simp add: choice_record_final_def)
  with Inl have "e = KeyError (''Task'' @ str_nat task @ ''_choice'') \<and>
      r (''Task'' @ str_nat task @ ''_choice'') = None"
    by (intro getitem_Inl) simp
  then show ?thesis unfolding columns_read_def by simp
next
  case c: (Inr c)
  show ?thesis
  proof (cases "getitem r ''Grade''")
    case (Inl e2)
    with c assms have "e2 = e" by (simp add: choice_record_final_def)
    with Inl have "e = KeyError ''Grade'' \<and> r ''Grade'' = None"
      by (intro getitem_Inl) simp
    then show ?thesis unfolding columns_read_def by simp
  next
    case (Inr g)
    with c assms have "add_attributes attributes r task
            [(''respondent_id'', I (int idx)), (''task'', I (int task)),
             (''choice'', I (if c = Str ''A'' then 1 else 0)), (''grade'', C g)] = Inl e"
      by (simp add: choice_record_final_def)
    from add_attributes_error_key [OF this] show ?thesis
      unfolding columns_read_def by simp
  qed
qed

lemma add_attributes_cong:
  "(\<And>attr. attr \<in> set attrs \<Longrightarrow>
      r1 (''A_'' @ attr @ str_nat task) = r2 (''A_'' @ attr @ str_nat task) \<and>
      r1 (''B_'' @ attr @ str_nat task) = r2 (''B_'' @ attr @ str_nat task)) \<Longrightarrow>
   add_attributes attrs r1 task rcd = add_attributes attrs r2 task rcd"
proof (induction attrs arbitrary: rcd)
  case Nil
  then show ?case by simp
next
  case (Cons attr attrs)
  from Cons.prems [of attr]
  have a: "getitem r1 (''A_'' @ attr @ str_nat task) = getitem r2 (''A_'' @ attr @ str_nat task)"
    and b: "getitem r1 (''B_'' @ attr @ str_nat task) = getitem r2 (''B_'' @ attr @ str_nat task)"
    by (simp_all add: getitem_def)
  have ih: "\<And>rcd. add_attributes attrs r1 task rcd = add_attributes attrs r2 task rcd"
    by (rule Cons.IH) (rule Cons.prems, simp)
  show ?case
    by (simp only: add_attributes.simps a b ih)
qed

lemma choice_cell_only_coded:
  assumes "c \<noteq> Str ''A''"
  shows "choice_record_final idx (r(''Task'' @ str_nat task @ ''_choice'' \<mapsto> c)) task =
         choice_record_final idx (r(''Task'' @ str_nat task @ ''_choice'' \<mapsto> Str ''B'')) task"
proof -
  define k where "k = ''Task'' @ str_nat task @ ''_choice''"
  have g: "getitem (r(k \<mapsto> c)) ''Grade'' = getitem (r(k \<mapsto> Str ''B'')) ''Grade''"
    by (simp add: getitem_def k_def)
  have aa: "\<And>rcd. add_attributes attributes (r(k \<mapsto> c)) task rcd =
            add_attributes attributes (r(k \<mapsto> Str ''B'')) task rcd"
    by (rule add_attributes_cong) (simp add: k_def)
  have c1: "getitem (r(k \<mapsto> c)) k = Inr c" and c2: "getitem (r(k \<mapsto> Str ''B'')) k = Inr (Str ''B'')"
    by (simp_all add: getitem_def)
  have z: "(if c = Str ''A'' then 1 else 0 :: int) = (if Str ''B'' = Str ''A'' then 1 else 0)"
    using assms by simp
  show ?thesis
    unfolding choice_record_final_def k_def [symmetric]
    by (simp only: c1 c2 g aa z sum.case)
qed

lemma example_columns_present:
  "list_all (\<lambda>k. example_row NaN k \<noteq> None) (columns_read 1)"
  by code_simp

text \<open>
  C1 (as the code has it). For every row, respondent index and task, the builder of
  \<^verbatim>\<open>final_robust_conjoint_analysis\<close> never rejects a value of \<open>Task{t}_choice\<close>. When it
  returns a record, the coded choice is 1 if the cell is exactly the string \<open>A\<close> and 0 for
  every other cell (\<open>B\<close>, any other text, NaN). The only exception it can raise is the
  KeyError of one of the sixteen columns it reads (the choice, the grade and the two level
  columns of each of the seven attributes) that the row does not have; a row that has these
  columns always yields a record. And a row whose choice cell is anything but \<open>A\<close> gives
  the very result of the same row with the choice \<open>B\<close>.
\<close>

theorem choice_is_defaulted:
  "(choice_record_final idx r task = Inr rcd \<longrightarrow>
      map_of rcd ''choice'' =
        Some (I (if r (''Task'' @ str_nat task @ ''_choice'') = Some (Str ''A'') then 1 else 0))) \<and>
   (choice_record_final idx r task = Inl e \<longrightarrow>
      (\<exists>k\<in>set (columns_read task). e = KeyError k \<and> r k = None)) \<and>
   ((\<forall>k\<in>set (columns_read task). r k \<noteq> None) \<longrightarrow>
      (\<exists>rcd'. choice_record_final idx r task = Inr rcd')) \<and>
   (c \<noteq> Str ''A'' \<longrightarrow>
      choice_record_final idx (r(''Task'' @ str_nat task @ ''_choice'' \<mapsto> c)) task =
      choice_record_final idx (r(''Task'' @ str_nat task @ ''_choice'' \<mapsto> Str ''B'')) task)"
proof (intro conjI impI)
  assume ok: "choice_record_final idx r task = Inr rcd"
  then obtain c g where c: "r (''Task'' @ str_nat task @ ''_choice'') = Some c"
    and aa: "add_attributes attributes r task
            [(''respondent_id'', I (int idx)), (''task'', I (int task)),
             (''choice'', I (if c = Str ''A'' then 1 else 0)), (''grade'', C g)] = Inr rcd"
    by (rule choice_record_final_Inr)
  have "''choice'' \<notin> set (concat (map attr_keys attributes))"
    unfolding attribute_keys by simp
  from add_attributes_other [OF aa this] c
  show "map_of rcd ''choice'' =
        Some (I (if r (''Task'' @ str_nat task @ ''_choice'') = Some (Str ''A'') then 1 else 0))"
    by simp
next
  assume "choice_record_final idx r task = Inl e"
  then show "\<exists>k\<in>set (columns_read task). e = KeyError k \<and> r k = None"
    by (rule choice_record_final_error_key)
next
  assume all: "\<forall>k\<in>set (columns_read task). r k \<noteq> None"
  show "\<exists>rcd'. choice_record_final idx r task = Inr rcd'"
  proof (cases "choice_record_final idx r task")
    case (Inl e')
    then have "\<exists>k\<in>set (columns_read task). e' = KeyError k \<and> r k = None"
      by (rule choice_record_final_error_key)
    then obtain k where k: "k \<in> set (columns_read task)" and n: "r k = None"
      by (elim bexE conjE)
    from all k have "r k \<noteq> None" by (rule bspec)
    from this n show ?thesis by (rule notE)
  next
    case (Inr x)
    then show ?thesis by (intro exI)
  qed
next
  assume "c \<noteq> Str ''A''"
  then show "choice_record_final idx (r(''Task'' @ str_nat task @ ''_choice'' \<mapsto> c)) task =
      choice_record_final idx (r(''Task'' @ str_nat task @ ''_choice'' \<mapsto> Str ''B'')) task"
    by (rule choice_cell_only_coded)
qed

theorem choice_is_defaulted_witness:
  "choice_record_final 0 (example_row NaN) 1 = Inr example_record \<and>
   map_of example_record ''choice'' = Some (I 0) \<and>
   choice_record_final 0 Map.empty 1 = Inl (KeyError ''Task1_choice'') \<and>
   (\<exists>k\<in>set (columns_read 1). KeyError ''Task1_choice'' = KeyError k \<and> (Map.empty :: row) k = None) \<and>
   list_all (\<lambda>k. example_row NaN k \<noteq> None) (columns_read 1) \<and>
   (\<exists>rcd'. choice_record_final 0 (example_row NaN) 1 = Inr rcd') \<and>
   NaN \<noteq> Str ''A'' \<and>
   choice_record_final 0 ((example_row NaN)(''Task'' @ str_nat 1 @ ''_choice'' \<mapsto> NaN)) 1 =
   choice_record_final 0 ((example_row NaN)(''Task'' @ str_nat 1 @ ''_choice'' \<mapsto> Str ''B'')) 1"
proof -
  note t1 = choice_is_defaulted [of 0 "example_row NaN" 1 example_record "KeyError []" NaN]
  note t2 = choice_is_defaulted [of 0 Map.empty 1 "[]" "KeyError ''Task1_choice''" NaN]
  from t1 [THEN conjunct1, THEN mp, OF example_row_nan] example_row_no_a
  have 1: "map_of example_record ''choice'' = Some (I 0)"
    by (simp only: if_False)
  have 2: "\<exists>k\<in>set (columns_read 1). KeyError ''Task1_choice'' = KeyError k \<and> (Map.empty :: row) k = None"
    by (rule t2 [THEN conjunct2, THEN conjunct1, THEN mp, OF empty_row_fails])
  from example_columns_present
  have all: "\<forall>k\<in>set (columns_read 1). example_row NaN k \<noteq> None"
    by (simp only: list_all_iff)
  have 3: "\<exists>rcd'. choice_record_final 0 (example_row NaN) 1 = Inr rcd'"
    by (rule t1 [THEN conjunct2, THEN conjunct2, THEN conjunct1, THEN mp, OF all])
  have n: "NaN \<noteq> Str ''A''" by simp
  have 4: "choice_record_final 0 ((example_row NaN)(''Task'' @ str_nat 1 @ ''_choice'' \<mapsto> NaN)) 1 =
   choice_record_final 0 ((example_row NaN)(''Task'' @ str_nat 1 @ ''_choice'' \<mapsto> Str ''B'')) 1"
    by (rule t1 [THEN conjunct2, THEN conjunct2, THEN conjunct2, THEN mp, OF n])
  from example_row_nan 1 empty_row_fails 2 example_columns_present 3 n 4 show ?thesis
    by (intro conjI)
qed

text \<open>
  C1 as stated fails: with an empty (NaN) choice cell, and with the text \<open>C\<close>, the builder
  raises nothing and returns the very record it returns for the choice \<open>B\<close>.
\<close>

theorem invalid_choice_counterexample:
  "choice_record_final 0 (example_row NaN) 1 = Inr example_record \<and>
   choice_record_final 0 (example_row (Str ''C'')) 1 = Inr example_record \<and>
   choice_record_final 0 (example_row (Str ''B'')) 1 = Inr example_record \<and>
   map_of example_record ''choice'' = Some (I 0)"
  using example_row_nan example_row_other example_row_b by (simp add: example_record_def)

section \<open>The design columns per attribute\<close>

lemma fold_insert_key_present:
  "set ks \<subseteq> set acc \<Longrightarrow> fold insert_key ks acc = acc"
  by (induction ks arbitrary: acc) (simp_all add: insert_key_def)

lemma fold_insert_key_fresh:
  "distinct (acc @ ks) \<Longrightarrow> fold insert_key ks acc = acc @ ks"
  by (induction ks arbitrary: acc) (simp_all add: insert_key_def)

lemma concat_same_keys:
  "\<forall>rcd\<in>set records. map fst rcd = K \<Longrightarrow> set (concat (map (map fst) records)) \<subseteq> set K"
  by (induction records) simp_all

lemma columns_same_keys:
  assumes "records \<noteq> []" and "\<forall>rcd\<in>set records. map fst rcd = K" and "distinct K"
  shows "columns records = K"
proof -
  from assms(1) obtain rcd rest where rs: "records = rcd # rest"
    by (cases records) simp_all
  with assms(2) have k: "map fst rcd = K" and rest: "\<forall>x\<in>set rest. map fst x = K"
    by simp_all
  have "columns records = fold insert_key (concat (map (map fst) rest)) (fold insert_key K [])"
    by (simp add: columns_def rs k)
  also have "fold insert_key K [] = K"
    using fold_insert_key_fresh [of "[]" K] assms(3) by simp
  also have "fold insert_key (concat (map (map fst) rest)) K = K"
    by (rule fold_insert_key_present) (rule concat_same_keys [OF rest])
  finally show ?thesis .
qed

lemma keys_are_final_keys:
  assumes "choice_record_final idx r task = Inr rcd"
  shows "map fst rcd = final_keys"
  unfolding final_keys_def using assms by (rule keys_final)

lemma distinct_final_keys: "distinct final_keys"
  by code_simp

lemma features_of_final_keys:
  "filter (\<lambda>col. endswith col ''_diff'' \<or> endswith col ''_free'' \<or> endswith col ''_4.99'' \<or>
                   endswith col ''_7.99'' \<or> endswith col ''_9.99'' \<or> endswith col ''_12.99'')
       final_keys = robust_features"
  by code_simp

lemma columns_per_attribute:
  "map (\<lambda>attr. length (attr_columns attr robust_features)) attributes = [1, 1, 5, 1, 1, 1, 1]"
  by code_simp

lemma levels_per_attribute: "map n_levels attributes = [2, 2, 5, 2, 2, 2, 2]"
  by code_simp

lemma example_record_columns:
  "length (attr_columns ''Pricing'' (feature_cols [example_record])) = 5"
  by code_simp

lemma pricing_levels: "n_levels ''Pricing'' = 5"
  by code_simp

text \<open>
  C7 (as the code has it). Whatever rows the records were built from, the data frame of
  \<^verbatim>\<open>final_robust_conjoint_analysis\<close> has the same eleven design columns: one column for each
  of the six two-level attributes (n - 1 of them) and five columns for the five-level
  Pricing attribute, one per level, the $12.99 level included. The level table of
  \<^verbatim>\<open>conditional_logit_analysis\<close> gives two levels to each of the six and five to Pricing.
\<close>

theorem design_columns_per_attribute:
  assumes "records \<noteq> []"
    and "\<forall>rcd\<in>set records. \<exists>idx r task. choice_record_final idx r task = Inr rcd"
  shows "feature_cols records = robust_features \<and>
         map (\<lambda>attr. length (attr_columns attr (feature_cols records))) attributes =
           [1, 1, 5, 1, 1, 1, 1] \<and>
         map n_levels attributes = [2, 2, 5, 2, 2, 2, 2]"
proof -
  have "\<forall>rcd\<in>set records. map fst rcd = final_keys"
  proof
    fix rcd assume "rcd \<in> set records"
    with assms(2) have "\<exists>idx r task. choice_record_final idx r task = Inr rcd"
      by (rule bspec)
    then obtain idx r task where "choice_record_final idx r task = Inr rcd"
      by (elim exE)
    then show "map fst rcd = final_keys" by (rule keys_are_final_keys)
  qed
  with assms(1) have "columns records = final_keys"
    using distinct_final_keys by (rule columns_same_keys)
  then have f: "feature_cols records = robust_features"
    unfolding feature_cols_def by (simp only: features_of_final_keys)
  show ?thesis
    unfolding f using columns_per_attribute levels_per_attribute by simp
qed

theorem design_columns_per_attribute_witness:
  "[example_record] \<noteq> [] \<and>
   choice_record_final 0 (example_row NaN) 1 = Inr example_record \<and>
   feature_cols [example_record] = robust_features \<and>
   map (\<lambda>attr. length (attr_columns attr (feature_cols [example_record]))) attributes =
     [1, 1, 5, 1, 1, 1, 1] \<and>
   map n_levels attributes = [2, 2, 5, 2, 2, 2, 2]"
proof -
  have 1: "[example_record] \<noteq> []" by simp
  have "\<exists>idx r task. choice_record_final idx r task = Inr example_record"
    by (intro exI) (rule example_row_nan)
  then have 2: "\<forall>rcd\<in>set [example_record]. \<exists>idx r task. choice_record_final idx r task = Inr rcd"
    by simp
  note t = design_columns_per_attribute [OF 1 2]
  from t have a: "feature_cols [example_record] = robust_features"
    by (rule conjunct1)
  from t have b: "map (\<lambda>attr. length (attr_columns attr (feature_cols [example_record])))
      attributes = [1, 1, 5, 1, 1, 1, 1]"
    by (rule conjunct1 [OF conjunct2])
  from t have c: "map n_levels attributes = [2, 2, 5, 2, 2, 2, 2]"
    by (rule conjunct2 [OF conjunct2])
  show ?thesis
    by (intro conjI 1 example_row_nan a b c)
qed

text \<open>
  C7 as stated fails: the five-level Pricing attribute has five design columns in the frame
  built from the example record, not four.
\<close>

theorem pricing_columns_counterexample:
  "length (attr_columns ''Pricing'' (feature_cols [example_record])) = 5 \<and>
   n_levels ''Pricing'' = 5 \<and>
   length (attr_columns ''Pricing'' (feature_cols [example_record])) \<noteq> n_levels ''Pricing'' - 1"
  using example_record_columns pricing_levels by simp

section \<open>Properties of the long-format builder of \<^verbatim>\<open>conjoint_analysis\<close>\<close>

lemma setitem_fresh: "k \<notin> fst ` set d \<Longrightarrow> setitem k v d = d @ [(k, v)]"
  unfolding setitem_def by (induction d) auto

lemma fold_add_fresh:
  "distinct (map fst rcd @ map py_lower attrs) \<Longrightarrow>
   fold (add_if_present r task option) attrs rcd = rcd @ present_entries r task option attrs"
proof (induction attrs arbitrary: rcd)
  case Nil
  then show ?case by (simp add: present_entries_def)
next
  case (Cons attr attrs)
  show ?case
  proof (cases "r (option @ ''_'' @ attr @ str_nat task)")
    case None
    then have "add_if_present r task option attr rcd = rcd"
      by (simp add: add_if_present_def)
    moreover from Cons.prems have "distinct (map fst rcd @ map py_lower attrs)" by simp
    ultimately show ?thesis using Cons.IH [of rcd] None by (simp add: present_entries_def)
  next
    case (Some v)
    from Cons.prems have fresh: "py_lower attr \<notin> fst ` set rcd" by simp
    have k: "add_if_present r task option attr rcd = rcd @ [(py_lower attr, C v)]"
      using Some fresh by (simp add: add_if_present_def setitem_fresh)
    from Cons.prems have "distinct (map fst (add_if_present r task option attr rcd) @ map py_lower attrs)"
      unfolding k by simp
    from Cons.IH [OF this] show ?thesis using Some by (simp add: k present_entries_def)
  qed
qed

lemma distinct_long_keys: "distinct (long_base_keys @ map py_lower attributes)"
  by code_simp

lemma keys_long_base_record:
  "map fst (long_base_record i task option c l e g p) = long_base_keys"
  by (simp add: long_base_record_def long_base_keys_def)

lemma length_long_base_record: "length (long_base_record i task option c l e g p) = 8"
  by (simp add: long_base_record_def)

lemma fold_long_base_record:
  "fold (add_if_present r task option) attributes (long_base_record i task option c l e g p) =
     long_base_record i task option c l e g p @ present_entries r task option attributes"
  by (rule fold_add_fresh) (simp only: keys_long_base_record distinct_long_keys)

lemma long_record_Inr:
  assumes "long_record i r task option = Inr rcd"
  shows "map fst (take 8 rcd) = long_base_keys \<and>
         drop 8 rcd = present_entries r task option attributes"
  using assms
  by (clarsimp simp: long_record_def fold_long_base_record keys_long_base_record
        length_long_base_record split: sum.splits if_splits)

lemma long_record_Inl:
  assumes "long_record i r task option = Inl e"
  shows "\<exists>k. e = KeyError k \<and> r k = None \<and>
           k \<in> set [''Task'' @ str_nat task @ ''_choice'', ''Task'' @ str_nat task @ ''_perceivedlearning'',
                     ''Task'' @ str_nat task @ ''_expectedenjoyment'', ''Grade'', ''Prolific_ID'']"
  using assms
  by (clarsimp simp: long_record_def getitem_def split: option.splits if_splits sum.splits)


lemma length_present_entries:
  "length (present_entries r task option attrs) =
     length (filter (\<lambda>attr. r (option @ ''_'' @ attr @ str_nat task) \<noteq> None) attrs)"
  by (induction attrs) (simp_all add: present_entries_def split: option.splits)

lemma example_long_row_record:
  "long_record 0 example_long_row 1 ''A'' = Inr example_long_record"
  by code_simp

lemma example_long_row_no_tutor: "example_long_row ''A_Tutor1'' = None"
  by code_simp

lemma example_long_record_no_tutor:
  "map_of example_long_record ''tutor'' = None \<and> length (drop 8 example_long_record) = 6"
  by code_simp

lemma example_long_row_present:
  "length (filter (\<lambda>attr. example_long_row (''A'' @ ''_'' @ attr @ str_nat 1) \<noteq> None)
                  attributes) = 6"
  by code_simp

lemma example_long_row_no_grade:
  "long_record 0 (example_long_row(''Grade'' := None)) 1 ''A'' = Inl (KeyError ''Grade'')"
  by code_simp

text \<open>
  C5 (as the code has it). For every row, task and alternative, the long-format builder
  reads the column \<open><Alt>_<Attribute><task>\<close> of each of the seven attributes only when
  the row has it, and stores it under the lower-cased attribute name; a column that is
  absent is skipped without any error. So a record is the eight fixed entries followed by
  one entry per attribute column that is present (fewer than seven when a column is
  missing), and the only exception the builder raises is the KeyError of an absent choice,
  rating, \<open>Grade\<close> or \<open>Prolific_ID\<close> column.
\<close>

theorem absent_attribute_is_skipped:
  "(long_record i r task option = Inr rcd \<longrightarrow>
      map fst (take 8 rcd) = long_base_keys \<and>
      drop 8 rcd = present_entries r task option attributes \<and>
      length (drop 8 rcd) =
        length (filter (\<lambda>attr. r (option @ ''_'' @ attr @ str_nat task) \<noteq> None) attributes)) \<and>
   (long_record i r task option = Inl e \<longrightarrow>
      (\<exists>k. e = KeyError k \<and> r k = None \<and>
           k \<in> set [''Task'' @ str_nat task @ ''_choice'',
                     ''Task'' @ str_nat task @ ''_perceivedlearning'',
                     ''Task'' @ str_nat task @ ''_expectedenjoyment'',
                     ''Grade'', ''Prolific_ID'']))"
proof (intro conjI impI)
  assume ok: "long_record i r task option = Inr rcd"
  from long_record_Inr [OF ok]
  show "map fst (take 8 rcd) = long_base_keys"
    and d: "drop 8 rcd = present_entries r task option attributes"
    by simp_all
  show "length (drop 8 rcd) =
        length (filter (\<lambda>attr. r (option @ ''_'' @ attr @ str_nat task) \<noteq> None) attributes)"
    unfolding d by (rule length_present_entries)
next
  assume "long_record i r task option = Inl e"
  then show "\<exists>k. e = KeyError k \<and> r k = None \<and>
           k \<in> set [''Task'' @ str_nat task @ ''_choice'',
                     ''Task'' @ str_nat task @ ''_perceivedlearning'',
                     ''Task'' @ str_nat task @ ''_expectedenjoyment'',
                     ''Grade'', ''Prolific_ID'']"
    by (rule long_record_Inl)
qed

theorem absent_attribute_is_skipped_witness:
  "long_record 0 example_long_row 1 ''A'' = Inr example_long_record \<and>
   map fst (take 8 example_long_record) = long_base_keys \<and>
   length (drop 8 example_long_record) = 6 \<and>
   long_record 0 (example_long_row(''Grade'' := None)) 1 ''A'' = Inl (KeyError ''Grade'') \<and>
   (\<exists>k. KeyError ''Grade'' = KeyError k \<and> (example_long_row(''Grade'' := None)) k = None)"
proof -
  note t1 = absent_attribute_is_skipped
    [of 0 example_long_row 1 "''A''" example_long_record "KeyError []"]
  note t2 = absent_attribute_is_skipped
    [of 0 "example_long_row(''Grade'' := None)" 1 "''A''" "[]" "KeyError ''Grade''"]
  from example_long_row_record
  have t1': "map fst (take 8 example_long_record) = long_base_keys \<and>
      drop 8 example_long_record = present_entries example_long_row 1 ''A'' attributes \<and>
      length (drop 8 example_long_record) =
        length (filter (\<lambda>attr. example_long_row (''A'' @ ''_'' @ attr @ str_nat 1) \<noteq> None)
                  attributes)"
    by (rule t1 [THEN conjunct1, THEN mp])
  from t1' have a: "map fst (take 8 example_long_record) = long_base_keys"
    by (rule conjunct1)
  from t1' have b: "length (drop 8 example_long_record) =
        length (filter (\<lambda>attr. example_long_row (''A'' @ ''_'' @ attr @ str_nat 1) \<noteq> None)
                  attributes)"
    by (rule conjunct2 [OF conjunct2])
  from example_long_row_no_grade
  have "\<exists>k. KeyError ''Grade'' = KeyError k \<and> (example_long_row(''Grade'' := None)) k = None \<and>
           k \<in> set [''Task'' @ str_nat 1 @ ''_choice'',
                     ''Task'' @ str_nat 1 @ ''_perceivedlearning'',
                     ''Task'' @ str_nat 1 @ ''_expectedenjoyment'',
                     ''Grade'', ''Prolific_ID'']"
    by (rule t2 [THEN conjunct2, THEN mp])
  then have c: "\<exists>k. KeyError ''Grade'' = KeyError k \<and> (example_long_row(''Grade'' := None)) k = None"
    by (elim exE conjE) (intro exI conjI)
  from b have b': "length (drop 8 example_long_record) = 6"
    unfolding example_long_row_present .
  show ?thesis
    by (intro conjI example_long_row_record a b' example_long_row_no_grade c)
qed

text \<open>
  C5 as stated fails: the row has no column \<open>A_Tutor1\<close>, and the builder raises nothing; it
  returns a record for alternative A with six attribute entries and no tutor.
\<close>

theorem missing_column_counterexample:
  "example_long_row ''A_Tutor1'' = None \<and>
   long_record 0 example_long_row 1 ''A'' = Inr example_long_record \<and>
   map_of example_long_record ''tutor'' = None \<and>
   length (drop 8 example_long_record) = 6"
  using example_long_row_no_tutor example_long_row_record example_long_record_no_tutor
  by simp

section \<open>Percentage-point effects: the marginal effect and the shortcut\<close>

lemma sequence_map_Inr: "sequence (map (\<lambda>x. Inr (f x)) xs) = Inr (map f xs)"
  by (induction xs) simp_all

lemma sequence_cong_map:
  "(\<And>x. x \<in> set xs \<Longrightarrow> g x = Inr (f x)) \<Longrightarrow> sequence (map g xs) = Inr (map f xs)"
  by (induction xs) simp_all

lemma map_nth_take: "n \<le> length xs \<Longrightarrow> map (\<lambda>i. f (xs ! i)) [0..<n] = map f (take n xs)"
  by (rule nth_equalityI) simp_all

lemma calculate_ame_is_ame:
  assumes "length features \<le> length (params result)"
  shows "calculate_ame result features =
           Inr (map (spec_ame (predict result)) (take (length features) (params result)))"
proof -
  have "calculate_ame result features =
          Inr (map (\<lambda>i. spec_ame (predict result) (params result ! i)) [0..<length features])"
    unfolding calculate_ame_def Let_def
    by (rule sequence_cong_map) (use assms in \<open>simp add: item_at_def spec_ame_def\<close>)
  also have "map (\<lambda>i. spec_ame (predict result) (params result ! i)) [0..<length features] =
      map (spec_ame (predict result)) (take (length features) (params result))"
    using assms by (rule map_nth_take)
  finally show ?thesis .
qed

lemma pp_proper_is_25:
  assumes "length feature_names \<le> length coefficients"
  shows "calculate_pp_effects_proper coefficients feature_names =
           Inr (map (\<lambda>c. c * 25) (take (length feature_names) coefficients))"
proof -
  have "calculate_pp_effects_proper coefficients feature_names =
          Inr (map (\<lambda>i. coefficients ! i * 25) [0..<length feature_names])"
    unfolding calculate_pp_effects_proper_def
    by (rule sequence_cong_map) (use assms in \<open>simp add: item_at_def\<close>)
  also have "map (\<lambda>i. coefficients ! i * 25) [0..<length feature_names] =
      map (\<lambda>c. c * 25) (take (length feature_names) coefficients)"
    using assms by (rule map_nth_take)
  finally show ?thesis .
qed

lemma quarter_gap: "1 / 4 - p * (1 - p) = (p - 1 / 2) ^ 2" for p :: real
  by (simp add: power2_eq_square algebra_simps)

lemma sum_gap:
  "sum_list (map (\<lambda>p. (p - 1 / 2) ^ 2) probs) =
     real (length probs) / 4 - sum_list (map (\<lambda>p. p * (1 - p)) probs)" for probs :: "real list"
  by (induction probs) (simp_all add: power2_eq_square algebra_simps)

lemma mean_quarter_iff:
  assumes "probs \<noteq> []"
  shows "sum_list (map (\<lambda>p. p * (1 - p)) probs) / real (length probs) = 1 / 4 \<longleftrightarrow>
         (\<forall>p\<in>set probs. p = 1 / 2)"
proof -
  define n where "n = real (length probs)"
  define S where "S = sum_list (map (\<lambda>p. p * (1 - p)) probs)"
  define G where "G = sum_list (map (\<lambda>p. (p - 1 / 2) ^ 2) probs)"
  from assms have n: "0 < n" by (simp add: n_def)
  have g: "G = n / 4 - S"
    unfolding G_def n_def S_def by (rule sum_gap)
  have "S / n = 1 / 4 \<longleftrightarrow> G = 0"
    using n by (simp add: g field_simps)
  also have "G = 0 \<longleftrightarrow> (\<forall>x\<in>set (map (\<lambda>p. (p - 1 / 2) ^ 2) probs). x = 0)"
    unfolding G_def by (rule sum_list_nonneg_eq_0_iff) auto
  also have "\<dots> \<longleftrightarrow> (\<forall>p\<in>set probs. p = 1 / 2)"
    by auto
  finally show ?thesis unfolding S_def n_def .
qed

lemma shortcut_is_ame_iff:
  assumes "probs \<noteq> []"
  shows "spec_ame probs c = Some (c * 25) \<longleftrightarrow> c = 0 \<or> (\<forall>p\<in>set probs. p = 1 / 2)"
proof -
  define m where "m = sum_list (map (\<lambda>p. p * (1 - p)) probs) / real (length probs)"
  from assms have "spec_ame probs c = Some (c * 25) \<longleftrightarrow> m * c * 100 = c * 25"
    by (simp add: spec_ame_def np_mean_def m_def)
  also have "\<dots> \<longleftrightarrow> c = 0 \<or> m = 1 / 4"
    by auto
  also have "\<dots> \<longleftrightarrow> c = 0 \<or> (\<forall>p\<in>set probs. p = 1 / 2)"
    unfolding m_def using mean_quarter_iff [OF assms] by simp
  finally show ?thesis .
qed

lemma example_fit_ame:
  "calculate_ame example_fit [''Tutor_diff''] = Inr [Some (75 / 4)]"
  by (simp add: calculate_ame_def example_fit_def item_at_def np_mean_def)

lemma example_fit_proper:
  "calculate_pp_effects_proper (params example_fit) [''Tutor_diff''] = Inr [25]"
  by (simp add: calculate_pp_effects_proper_def example_fit_def item_at_def)

lemma example_fit_simple: "calculate_pp_effects (params example_fit) = [25]"
  by (simp add: calculate_pp_effects_def example_fit_def)

lemma example_fit_spec: "spec_ame (predict example_fit) 1 = Some (75 / 4)"
  by (simp add: spec_ame_def example_fit_def np_mean_def)

text \<open>
  C2 (as the code has it). \<^verbatim>\<open>calculate_ame\<close> of \<^verbatim>\<open>improved_conditional_logit\<close> reports, for
  every feature, the Average Marginal Effect: the mean over all choice sets of p(1 - p)
  times the coefficient times 100. \<^verbatim>\<open>calculate_pp_effects_proper\<close> of
  \<^verbatim>\<open>proper_conjoint_analysis\<close> and \<^verbatim>\<open>calculate_pp_effects\<close> of \<^verbatim>\<open>simple_conjoint_results\<close>
  report the coefficient times 25, whatever the fitted probabilities are; that value is the
  Average Marginal Effect only when the coefficient is 0 or every fitted probability is 1/2.
\<close>

theorem pp_effect_by_script:
  "(length features \<le> length (params result) \<longrightarrow>
      calculate_ame result features =
        Inr (map (spec_ame (predict result)) (take (length features) (params result)))) \<and>
   (length feature_names \<le> length coefficients \<longrightarrow>
      calculate_pp_effects_proper coefficients feature_names =
        Inr (map (\<lambda>c. c * 25) (take (length feature_names) coefficients))) \<and>
   calculate_pp_effects coefficients = map (\<lambda>c. c * 25) coefficients \<and>
   (probs \<noteq> [] \<longrightarrow>
      (spec_ame probs c = Some (c * 25) \<longleftrightarrow> c = 0 \<or> (\<forall>p\<in>set probs. p = 1 / 2)))"
proof (intro conjI impI)
  assume "length features \<le> length (params result)"
  then show "calculate_ame result features =
        Inr (map (spec_ame (predict result)) (take (length features) (params result)))"
    by (rule calculate_ame_is_ame)
next
  assume "length feature_names \<le> length coefficients"
  then show "calculate_pp_effects_proper coefficients feature_names =
        Inr (map (\<lambda>c. c * 25) (take (length feature_names) coefficients))"
    by (rule pp_proper_is_25)
next
  show "calculate_pp_effects coefficients = map (\<lambda>c. c * 25) coefficients"
    by (simp add: calculate_pp_effects_def)
next
  assume "probs \<noteq> []"
  then show "spec_ame probs c = Some (c * 25) \<longleftrightarrow> c = 0 \<or> (\<forall>p\<in>set probs. p = 1 / 2)"
    by (rule shortcut_is_ame_iff)
qed

theorem pp_effect_by_script_witness:
  "calculate_ame example_fit [''Tutor_diff''] = Inr [spec_ame [1 / 4] 1] \<and>
   calculate_pp_effects_proper [1] [''Tutor_diff''] = Inr [25] \<and>
   calculate_pp_effects [1] = [25] \<and>
   spec_ame [1 / 4] 1 \<noteq> Some 25"
proof -
  note t = pp_effect_by_script
    [of "[''Tutor_diff'']" example_fit "[''Tutor_diff'']" "[1]" "[1 / 4]" 1]
  have "length [''Tutor_diff''] \<le> length (params example_fit)"
    by (simp add: example_fit_def)
  then have "calculate_ame example_fit [''Tutor_diff''] =
      Inr (map (spec_ame (predict example_fit))
             (take (length [''Tutor_diff'']) (params example_fit)))"
    by (rule t [THEN conjunct1, THEN mp])
  then have a: "calculate_ame example_fit [''Tutor_diff''] = Inr [spec_ame [1 / 4] 1]"
    by (simp add: example_fit_def)
  have "length [''Tutor_diff''] \<le> length [1 :: real]"
    by simp
  then have "calculate_pp_effects_proper [1] [''Tutor_diff''] =
      Inr (map (\<lambda>c. c * 25) (take (length [''Tutor_diff'']) [1]))"
    by (rule t [THEN conjunct2, THEN conjunct1, THEN mp])
  then have b: "calculate_pp_effects_proper [1] [''Tutor_diff''] = Inr [25]"
    by simp
  from t have "calculate_pp_effects [1] = map (\<lambda>c. c * 25) [1]"
    by (rule conjunct1 [OF conjunct2 [OF conjunct2]])
  then have c: "calculate_pp_effects [1] = [25]"
    by simp
  have "[1 / 4 :: real] \<noteq> []"
    by simp
  then have iff: "spec_ame [1 / 4] 1 = Some (1 * 25) \<longleftrightarrow>
      (1 :: real) = 0 \<or> (\<forall>p\<in>set [1 / 4 :: real]. p = 1 / 2)"
    by (rule t [THEN conjunct2, THEN conjunct2, THEN conjunct2, THEN mp])
  have d: "spec_ame [1 / 4] 1 \<noteq> Some 25"
  proof
    assume "spec_ame [1 / 4] 1 = Some 25"
    then have "spec_ame [1 / 4] 1 = Some (1 * 25)"
      by (simp only: mult_1)
    with iff have "(1 :: real) = 0 \<or> (\<forall>p\<in>set [1 / 4 :: real]. p = 1 / 2)"
      by (rule iffD1)
    moreover have "(1 :: real) \<noteq> 0"
      by (rule one_neq_zero)
    ultimately have "\<forall>p\<in>set [1 / 4 :: real]. p = 1 / 2"
      by blast
    then have "(1 / 4 :: real) = 1 / 2"
      by (rule bspec) simp
    then show False
      by simp
  qed
  show ?thesis
    by (intro conjI a b c d)
qed

text \<open>
  C2 as stated fails: for the fitted model with coefficient 1 and fitted probability 1/4,
  \<^verbatim>\<open>proper_conjoint_analysis\<close> and \<^verbatim>\<open>simple_conjoint_results\<close> report 25 percentage points,
  the shortcut value, while the Average Marginal Effect is 18.75.
\<close>

theorem shortcut_counterexample:
  "calculate_pp_effects_proper (params example_fit) [''Tutor_diff''] = Inr [25] \<and>
   calculate_pp_effects (params example_fit) = [25] \<and>
   spec_ame (predict example_fit) 1 = Some (75 / 4) \<and>
   calculate_ame example_fit [''Tutor_diff''] = Inr [Some (75 / 4)]"
  using example_fit_proper example_fit_simple example_fit_spec example_fit_ame by simp

section \<open>What the p-value functions return when the inversion fails\<close>

lemma example_weighted: "weighted [[0], [0]] (map (\<lambda>p. p * (1 - p)) (predict_proba example_model [[0], [0]])) = Inr [[0], [0]]"
  by (simp add: weighted_def example_model_def)

lemma example_gram: "gram [[0], [0]] = [[0]]"
  by (simp add: gram_def)

lemma example_proper_half: "calculate_proper_p_values inv_1x1 example_cdf example_model [[0], [0]] [1, 0] = Inr [Some (1 / 2)]"
  by (simp add: calculate_proper_p_values_def example_weighted example_gram inv_1x1_def) (simp add: example_model_def)

lemma example_results_one: "calculate_p_values inv_1x1 example_cdf example_model [[0], [0]] [1, 0] = Inr [Some 1]"
  by (simp add: calculate_p_values_def example_weighted example_gram inv_1x1_def Let_def) (simp add: example_model_def broadcast2_def wald_p_def example_cdf_def)

lemma proper_placeholder:
  assumes "weighted X (map (\<lambda>p. p * (1 - p)) (predict_proba model X)) = Inr Xw"
    and "linalg_inv (gram Xw) = Inl LinAlgError"
  shows "calculate_proper_p_values linalg_inv cdf model X y = Inr (replicate (length (coef_0 model)) (Some (1 / 2)))"
  using assms by (simp add: calculate_proper_p_values_def)

lemma proper_propagates:
  assumes "weighted X (map (\<lambda>p. p * (1 - p)) (predict_proba model X)) = Inr Xw"
    and "linalg_inv (gram Xw) = Inl e" and "e \<noteq> LinAlgError"
  shows "calculate_proper_p_values linalg_inv cdf model X y = Inl e"
  using assms by (cases e) (simp_all add: calculate_proper_p_values_def)

lemma results_placeholder:
  assumes "weighted X (map (\<lambda>p. p * (1 - p)) (predict_proba model X)) = Inr Xw"
    and "linalg_inv (gram Xw) = Inl e"
  shows "calculate_p_values linalg_inv cdf model X y =
           Inr (map (\<lambda>c. Some (2 * (1 - cdf \<bar>c / (1 / 10)\<bar>))) (coef_0 model))"
proof -
  have "broadcast2 (wald_p cdf) (coef_0 model) (replicate (length (coef_0 model)) (Some (1 / 10))) =
          Inr (map (\<lambda>c. Some (2 * (1 - cdf \<bar>c / (1 / 10)\<bar>))) (coef_0 model))"
    by (simp add: broadcast2_def wald_p_def zip_replicate2 list_eq_iff_nth_eq)
  with assms show ?thesis by (simp add: calculate_p_values_def Let_def)
qed

lemma example_singular: "linalg_inv = inv_1x1 \<Longrightarrow> linalg_inv (gram [[0], [0]]) = Inl LinAlgError"
  by (simp add: example_gram inv_1x1_def)

text \<open>
  C4 (as the code has it). When \<^verbatim>\<open>np.linalg.inv\<close> raises LinAlgError,
  \<^verbatim>\<open>calculate_proper_p_values\<close> raises nothing and returns the p-value 0.5 for every
  coefficient; any other exception of the inversion it passes on. When the inversion raises
  any exception, \<^verbatim>\<open>_calculate_p_values\<close> of \<^verbatim>\<open>conjoint_results_analysis\<close> raises nothing
  and returns the p-values computed from the standard error 0.1 for every coefficient.
\<close>

theorem inversion_failure_is_replaced:
  "weighted X (map (\<lambda>p. p * (1 - p)) (predict_proba model X)) = Inr Xw \<longrightarrow>
     (linalg_inv (gram Xw) = Inl LinAlgError \<longrightarrow>
        calculate_proper_p_values linalg_inv cdf model X y =
          Inr (replicate (length (coef_0 model)) (Some (1 / 2)))) \<and>
     (linalg_inv (gram Xw) = Inl e \<and> e \<noteq> LinAlgError \<longrightarrow>
        calculate_proper_p_values linalg_inv cdf model X y = Inl e) \<and>
     (linalg_inv (gram Xw) = Inl e \<longrightarrow>
        calculate_p_values linalg_inv cdf model X y =
          Inr (map (\<lambda>c. Some (2 * (1 - cdf \<bar>c / (1 / 10)\<bar>))) (coef_0 model)))"
proof (intro impI conjI)
  assume w: "weighted X (map (\<lambda>p. p * (1 - p)) (predict_proba model X)) = Inr Xw"
  {
    assume "linalg_inv (gram Xw) = Inl LinAlgError"
    with w show "calculate_proper_p_values linalg_inv cdf model X y =
          Inr (replicate (length (coef_0 model)) (Some (1 / 2)))"
      by (rule proper_placeholder)
  next
    assume "linalg_inv (gram Xw) = Inl e \<and> e \<noteq> LinAlgError"
    then have "linalg_inv (gram Xw) = Inl e" and "e \<noteq> LinAlgError"
      by simp_all
    with w show "calculate_proper_p_values linalg_inv cdf model X y = Inl e"
      by (rule proper_propagates)
  next
    assume "linalg_inv (gram Xw) = Inl e"
    with w show "calculate_p_values linalg_inv cdf model X y =
          Inr (map (\<lambda>c. Some (2 * (1 - cdf \<bar>c / (1 / 10)\<bar>))) (coef_0 model))"
      by (rule results_placeholder)
  }
qed

theorem inversion_failure_is_replaced_witness:
  "weighted [[0], [0]] (map (\<lambda>p. p * (1 - p)) (predict_proba example_model [[0], [0]])) =
     Inr [[0], [0]] \<and>
   inv_1x1 (gram [[0], [0]]) = Inl LinAlgError \<and>
   calculate_proper_p_values inv_1x1 example_cdf example_model [[0], [0]] [1, 0] =
     Inr (replicate (length (coef_0 example_model)) (Some (1 / 2))) \<and>
   calculate_p_values inv_1x1 example_cdf example_model [[0], [0]] [1, 0] =
     Inr (map (\<lambda>c. Some (2 * (1 - example_cdf \<bar>c / (1 / 10)\<bar>))) (coef_0 example_model))"
proof -
  note t = inversion_failure_is_replaced
    [of "[[0], [0]]" example_model "[[0], [0]]" inv_1x1 example_cdf "[1, 0]" LinAlgError,
     THEN mp, OF example_weighted]
  have s: "inv_1x1 (gram [[0], [0]]) = Inl LinAlgError"
    by (rule example_singular) (rule refl)
  from s have a: "calculate_proper_p_values inv_1x1 example_cdf example_model [[0], [0]] [1, 0] =
     Inr (replicate (length (coef_0 example_model)) (Some (1 / 2)))"
    by (rule t [THEN conjunct1, THEN mp])
  from s have b: "calculate_p_values inv_1x1 example_cdf example_model [[0], [0]] [1, 0] =
     Inr (map (\<lambda>c. Some (2 * (1 - example_cdf \<bar>c / (1 / 10)\<bar>))) (coef_0 example_model))"
    by (rule t [THEN conjunct2, THEN conjunct2, THEN mp])
  show ?thesis
    by (intro conjI example_weighted s a b)
qed

text \<open>
  C4 as stated fails: two choice sets whose only design column is 0 give the singular
  matrix (0); the inversion raises LinAlgError, and the two functions return the fabricated
  p-values 0.5 and (from the standard error 0.1) 1 instead of an error.
\<close>

theorem placeholder_counterexample:
  "inv_1x1 (gram [[0], [0]]) = Inl LinAlgError \<and>
   calculate_proper_p_values inv_1x1 example_cdf example_model [[0], [0]] [1, 0] =
     Inr [Some (1 / 2)] \<and>
   calculate_p_values inv_1x1 example_cdf example_model [[0], [0]] [1, 0] = Inr [Some 1]"
  using example_singular [OF refl] example_proper_half example_results_one by simp

section \<open>The p-value of \<^verbatim>\<open>corrected_attribute_analysis\<close>\<close>

lemma p_value_analyze_level:
  "lr_p_value (analyze_level chi2 ttest choice_data attr lvl) =
     (if level_present choice_data lvl = [] \<or> level_absent choice_data lvl = [] then Some 1
      else (let p = (case chi2 (contingency_table choice_data lvl) of
                       Inr p_chi2 \<Rightarrow> p_chi2 | Inl e \<Rightarrow> Some 1)
            in case ttest (map obs_choice (level_present choice_data lvl))
                          (map obs_choice (level_absent choice_data lvl)) of
                 Inr p_value_t \<Rightarrow> py_min p p_value_t
               | Inl e \<Rightarrow> p))"
  by (simp add: analyze_level_def level_present_def level_absent_def contingency_table_def
        Let_def split: sum.splits)

lemma py_min_Some: "py_min (Some x) (Some y) = Some (min x y)"
  by (simp add: py_min_def min_def)

lemma example_obs_groups:
  "level_present example_obs ''Female AI tutor'' \<noteq> [] \<and>
   level_absent example_obs ''Female AI tutor'' \<noteq> []"
  by (simp add: level_present_def level_absent_def example_obs_def)

lemma example_t_test_wins:
  "lr_p_value (analyze_level (chi2_returning (4 / 5)) (ttest_returning (3 / 100)) example_obs
      ''Tutor'' ''Female AI tutor'') = Some (3 / 100)"
  using example_obs_groups
  by (simp add: p_value_analyze_level chi2_returning_def ttest_returning_def py_min_def)

lemma example_chi2_wins:
  "lr_p_value (analyze_level (chi2_returning (1 / 100)) (ttest_returning (3 / 100)) example_obs
      ''Tutor'' ''Female AI tutor'') = Some (1 / 100)"
  using example_obs_groups
  by (simp add: p_value_analyze_level chi2_returning_def ttest_returning_def py_min_def)

lemma py_min_cases: "py_min a b = a \<or> py_min a b = b"
  by (simp add: py_min_def split: option.splits)

lemma py_min_commute: "py_min (Some a) (Some b) = py_min (Some b) (Some a)"
  by (simp add: py_min_def)

text \<open>
  C3 (as the code has it). For every level, \<^verbatim>\<open>analyze_single_attribute_corrected\<close> reports
  one p-value that is built from two tests, a chi-square test and a t-test on the same two
  groups of choice sets. When the level is present in some choice sets and absent from
  others: if both tests return, the reported p-value is the p-value of one of the two, and
  which one depends only on the two values, not on the test each came from (exchanging the
  values between the tests leaves the report unchanged); a chi-square test that raises counts
  as the p-value 1; a t-test that raises leaves the chi-square value. When the level is
  present in every choice set or in none, the p-value is 1.
\<close>

theorem p_value_is_built_from_two_tests:
  "(level_present choice_data lvl = [] \<or> level_absent choice_data lvl = [] \<longrightarrow>
      lr_p_value (analyze_level chi2 ttest choice_data attr lvl) = Some 1) \<and>
   (level_present choice_data lvl \<noteq> [] \<and> level_absent choice_data lvl \<noteq> [] \<longrightarrow>
      (chi2 (contingency_table choice_data lvl) = Inr p_chi2 \<and>
       ttest (map obs_choice (level_present choice_data lvl))
             (map obs_choice (level_absent choice_data lvl)) = Inr p_t \<longrightarrow>
         lr_p_value (analyze_level chi2 ttest choice_data attr lvl) = p_chi2 \<or>
         lr_p_value (analyze_level chi2 ttest choice_data attr lvl) = p_t) \<and>
      (chi2 (contingency_table choice_data lvl) = Inl e \<and>
       ttest (map obs_choice (level_present choice_data lvl))
             (map obs_choice (level_absent choice_data lvl)) = Inr p_t \<longrightarrow>
         lr_p_value (analyze_level chi2 ttest choice_data attr lvl) = Some 1 \<or>
         lr_p_value (analyze_level chi2 ttest choice_data attr lvl) = p_t) \<and>
      (chi2 (contingency_table choice_data lvl) = Inr p_chi2 \<and>
       ttest (map obs_choice (level_present choice_data lvl))
             (map obs_choice (level_absent choice_data lvl)) = Inl e \<longrightarrow>
         lr_p_value (analyze_level chi2 ttest choice_data attr lvl) = p_chi2) \<and>
      (chi2 (contingency_table choice_data lvl) = Inl e \<and>
       ttest (map obs_choice (level_present choice_data lvl))
             (map obs_choice (level_absent choice_data lvl)) = Inl e' \<longrightarrow>
         lr_p_value (analyze_level chi2 ttest choice_data attr lvl) = Some 1) \<and>
      (chi2 (contingency_table choice_data lvl) = Inr (Some a) \<and>
       ttest (map obs_choice (level_present choice_data lvl))
             (map obs_choice (level_absent choice_data lvl)) = Inr (Some b) \<and>
       chi2' (contingency_table choice_data lvl) = Inr (Some b) \<and>
       ttest' (map obs_choice (level_present choice_data lvl))
              (map obs_choice (level_absent choice_data lvl)) = Inr (Some a) \<longrightarrow>
         lr_p_value (analyze_level chi2 ttest choice_data attr lvl) =
         lr_p_value (analyze_level chi2' ttest' choice_data attr lvl)))"
  using py_min_cases [of p_chi2 p_t] py_min_cases [of "Some 1" p_t] py_min_commute [of a b]
  by (simp add: p_value_analyze_level)

theorem p_value_is_built_from_two_tests_witness:
  "level_present example_obs ''Female AI tutor'' \<noteq> [] \<and>
   level_absent example_obs ''Female AI tutor'' \<noteq> [] \<and>
   chi2_returning (4 / 5) (contingency_table example_obs ''Female AI tutor'') =
     Inr (Some (4 / 5)) \<and>
   ttest_returning (3 / 100) (map obs_choice (level_present example_obs ''Female AI tutor''))
     (map obs_choice (level_absent example_obs ''Female AI tutor'')) = Inr (Some (3 / 100)) \<and>
   chi2_returning (3 / 100) (contingency_table example_obs ''Female AI tutor'') =
     Inr (Some (3 / 100)) \<and>
   ttest_returning (4 / 5) (map obs_choice (level_present example_obs ''Female AI tutor''))
     (map obs_choice (level_absent example_obs ''Female AI tutor'')) = Inr (Some (4 / 5)) \<and>
   (lr_p_value (analyze_level (chi2_returning (4 / 5)) (ttest_returning (3 / 100)) example_obs
      ''Tutor'' ''Female AI tutor'') = Some (4 / 5) \<or>
    lr_p_value (analyze_level (chi2_returning (4 / 5)) (ttest_returning (3 / 100)) example_obs
      ''Tutor'' ''Female AI tutor'') = Some (3 / 100)) \<and>
   lr_p_value (analyze_level (chi2_returning (4 / 5)) (ttest_returning (3 / 100)) example_obs
      ''Tutor'' ''Female AI tutor'') =
   lr_p_value (analyze_level (chi2_returning (3 / 100)) (ttest_returning (4 / 5)) example_obs
      ''Tutor'' ''Female AI tutor'')"
proof -
  note t = p_value_is_built_from_two_tests
    [of example_obs "''Female AI tutor''" "chi2_returning (4 / 5)" "ttest_returning (3 / 100)"
        "''Tutor''" "Some (4 / 5)" "Some (3 / 100)" ValueError ValueError "4 / 5" "3 / 100"
        "chi2_returning (3 / 100)" "ttest_returning (4 / 5)",
     THEN conjunct2, THEN mp, OF example_obs_groups]
  have c: "chi2_returning (4 / 5) (contingency_table example_obs ''Female AI tutor'') =
       Inr (Some (4 / 5))"
    by (simp add: chi2_returning_def)
  have s: "ttest_returning (3 / 100) (map obs_choice (level_present example_obs ''Female AI tutor''))
      (map obs_choice (level_absent example_obs ''Female AI tutor'')) = Inr (Some (3 / 100))"
    by (simp add: ttest_returning_def)
  have c': "chi2_returning (3 / 100) (contingency_table example_obs ''Female AI tutor'') =
       Inr (Some (3 / 100))"
    by (simp add: chi2_returning_def)
  have s': "ttest_returning (4 / 5) (map obs_choice (level_present example_obs ''Female AI tutor''))
      (map obs_choice (level_absent example_obs ''Female AI tutor'')) = Inr (Some (4 / 5))"
    by (simp add: ttest_returning_def)
  from c s have 1: "lr_p_value (analyze_level (chi2_returning (4 / 5)) (ttest_returning (3 / 100)) example_obs
      ''Tutor'' ''Female AI tutor'') = Some (4 / 5) \<or>
    lr_p_value (analyze_level (chi2_returning (4 / 5)) (ttest_returning (3 / 100)) example_obs
      ''Tutor'' ''Female AI tutor'') = Some (3 / 100)"
    by (intro t [THEN conjunct1, THEN mp] conjI)
  from c s c' s' have 2: "lr_p_value (analyze_level (chi2_returning (4 / 5)) (ttest_returning (3 / 100)) example_obs
      ''Tutor'' ''Female AI tutor'') =
   lr_p_value (analyze_level (chi2_returning (3 / 100)) (ttest_returning (4 / 5)) example_obs
      ''Tutor'' ''Female AI tutor'')"
    by (intro t [THEN conjunct2, THEN conjunct2, THEN conjunct2, THEN conjunct2, THEN mp] conjI)
  from example_obs_groups c s c' s' 1 2 show ?thesis
    by (intro conjI) simp_all
qed

text \<open>
  C3 as stated fails: for the same three choice sets and the same t-test p-value 0.03, the
  reported p-value is the t-test's when the chi-square p-value is 0.8 and the chi-square's
  when that is 0.01, so two different tests are combined, here by their minimum.
\<close>

theorem min_of_tests_counterexample:
  "lr_p_value (analyze_level (chi2_returning (4 / 5)) (ttest_returning (3 / 100)) example_obs
      ''Tutor'' ''Female AI tutor'') = Some (3 / 100) \<and>
   lr_p_value (analyze_level (chi2_returning (1 / 100)) (ttest_returning (3 / 100)) example_obs
      ''Tutor'' ''Female AI tutor'') = Some (1 / 100)"
  using example_t_test_wins example_chi2_wins by simp

section \<open>The estimator of \<^verbatim>\<open>final_robust_conjoint_analysis\<close>: results and bootstrap\<close>

lemma sequence_map_Inr_D:
  "sequence (map g ys) = Inr xs \<Longrightarrow> list_all2 (\<lambda>y x. g y = Inr x) ys xs"
proof (induction ys arbitrary: xs)
  case Nil
  then show ?case by simp
next
  case (Cons y ys)
  from Cons.prems obtain x where x: "g y = Inr x"
    by (cases "g y") simp_all
  with Cons.prems obtain xs' where xs': "sequence (map g ys) = Inr xs'"
    by (cases "sequence (map g ys)") simp_all
  with x Cons.prems have "xs = x # xs'" by simp
  with x Cons.IH [OF xs'] show ?case by simp
qed

lemma sequence_map_all_Inr:
  "(\<And>y. y \<in> set ys \<Longrightarrow> g y = Inr (f y)) \<Longrightarrow> sequence (map g ys) = Inr (map f ys)"
  by (induction ys) simp_all

lemma length_le_if_all_less:
  "(\<And>i. i < n \<Longrightarrow> i < m) \<Longrightarrow> n \<le> (m :: nat)"
  by (metis not_less order_refl)

lemma robust_results_fields:
  assumes "robust_results cols coefficients p_values pp_effects = Inr res"
  shows "map rr_feature res = cols \<and>
         map rr_coefficient res = take (length cols) coefficients \<and>
         map rr_pp_effect res = take (length cols) pp_effects"
proof -
  define g where "g = (\<lambda>(i, feature).
        case item_at coefficients i of
          Inl e \<Rightarrow> Inl e
        | Inr c \<Rightarrow>
            (case item_at p_values i of
               Inl e \<Rightarrow> Inl e
             | Inr p \<Rightarrow>
                 (case item_at pp_effects i of
                    Inl e \<Rightarrow> Inl e
                  | Inr pp \<Rightarrow>
                      Inr \<lparr>rr_feature = feature, rr_coefficient = c, rr_p_value = p,
                           rr_pp_effect = pp,
                           rr_significance = get_significance_final (Some p)\<rparr>)))"
  have step: "\<And>i f r. g (i, f) = Inr r \<Longrightarrow>
      i < length coefficients \<and> i < length pp_effects \<and> rr_feature r = f \<and>
      rr_coefficient r = coefficients ! i \<and> rr_pp_effect r = pp_effects ! i"
    by (auto simp: g_def item_at_def split: if_splits)
  from assms have "sequence (map g (enumerate 0 cols)) = Inr res"
    by (simp add: robust_results_def g_def)
  then have all2: "list_all2 (\<lambda>y x. g y = Inr x) (enumerate 0 cols) res"
    by (rule sequence_map_Inr_D)
  then have len: "length res = length cols"
    by (simp add: list_all2_lengthD [symmetric])
  have nth: "\<And>i. i < length cols \<Longrightarrow> g (i, cols ! i) = Inr (res ! i)"
  proof -
    fix i assume i: "i < length cols"
    with all2 have "g (enumerate 0 cols ! i) = Inr (res ! i)"
      by (simp add: list_all2_conv_all_nth)
    with i show "g (i, cols ! i) = Inr (res ! i)"
      by (simp add: nth_enumerate_eq)
  qed
  have facts: "\<And>i. i < length cols \<Longrightarrow>
      i < length coefficients \<and> i < length pp_effects \<and> rr_feature (res ! i) = cols ! i \<and>
      rr_coefficient (res ! i) = coefficients ! i \<and> rr_pp_effect (res ! i) = pp_effects ! i"
    by (rule step) (rule nth)
  have le1: "length cols \<le> length coefficients"
    by (rule length_le_if_all_less) (use facts in blast)
  have le2: "length cols \<le> length pp_effects"
    by (rule length_le_if_all_less) (use facts in blast)
  have a: "map rr_feature res = cols"
    by (rule nth_equalityI) (use len facts in \<open>simp_all\<close>)
  have b: "map rr_coefficient res = take (length cols) coefficients"
    by (rule nth_equalityI) (use len le1 facts in \<open>simp_all\<close>)
  have c: "map rr_pp_effect res = take (length cols) pp_effects"
    by (rule nth_equalityI) (use len le2 facts in \<open>simp_all\<close>)
  from a b c show ?thesis by simp
qed

lemma pp_final_is_25:
  assumes "calculate_pp_effects_final coefficients feature_names = Inr pps"
  shows "take (length feature_names) pps = map (\<lambda>c. c * 25) (take (length feature_names) coefficients)"
proof -
  define g where "g = (\<lambda>i. case item_at coefficients i of
          Inl e \<Rightarrow> Inl e
        | Inr coef \<Rightarrow> Inr (coef * 25))"
  have step: "\<And>i r. g i = Inr r \<Longrightarrow> i < length coefficients \<and> r = coefficients ! i * 25"
    by (auto simp: g_def item_at_def split: if_splits)
  from assms have "sequence (map g [0..<length feature_names]) = Inr pps"
    by (simp add: calculate_pp_effects_final_def g_def)
  then have all2: "list_all2 (\<lambda>y x. g y = Inr x) [0..<length feature_names] pps"
    by (rule sequence_map_Inr_D)
  then have len: "length pps = length feature_names"
    using list_all2_lengthD by fastforce
  have nth: "\<And>i. i < length feature_names \<Longrightarrow> g i = Inr (pps ! i)"
    using all2 by (simp add: list_all2_conv_all_nth)
  have facts: "\<And>i. i < length feature_names \<Longrightarrow>
      i < length coefficients \<and> pps ! i = coefficients ! i * 25"
    by (rule step) (rule nth)
  have le1: "length feature_names \<le> length coefficients"
    by (rule length_le_if_all_less) (use facts in blast)
  show ?thesis
    by (rule nth_equalityI) (use len le1 facts in \<open>simp_all\<close>)
qed

lemma run_robust_analysis_depends_on_data:
  assumes "run_robust_analysis fit choice_data rng = Inr res"
  obtains y coefficients where
    "frame_getitem choice_data ''choice'' = Inr y"
    "fit 42 (frame_select choice_data (feature_cols choice_data)) y = Inr coefficients"
    "map rr_feature res = feature_cols choice_data"
    "map rr_coefficient res = take (length (feature_cols choice_data)) coefficients"
    "map rr_pp_effect res =
       map (\<lambda>c. c * 25) (take (length (feature_cols choice_data)) coefficients)"
proof -
  let ?cols = "feature_cols choice_data"
  let ?X = "frame_select choice_data ?cols"
  from assms obtain y where y: "frame_getitem choice_data ''choice'' = Inr y"
    by (cases "frame_getitem choice_data ''choice''") (simp_all add: run_robust_analysis_def Let_def)
  with assms obtain cs where cs: "fit 42 ?X y = Inr cs"
    by (cases "fit 42 ?X y") (simp_all add: run_robust_analysis_def Let_def)
  with assms y obtain ps where ps: "calculate_bootstrap_p_values fit cs ?X y 1000 rng = Inr ps"
    by (cases "calculate_bootstrap_p_values fit cs ?X y 1000 rng")
       (simp_all add: run_robust_analysis_def Let_def)
  with assms y cs obtain pps where pps: "calculate_pp_effects_final cs ?cols = Inr pps"
    by (cases "calculate_pp_effects_final cs ?cols") (simp_all add: run_robust_analysis_def Let_def)
  with assms y cs ps have "robust_results ?cols cs ps pps = Inr res"
    by (simp add: run_robust_analysis_def Let_def)
  from robust_results_fields [OF this] pp_final_is_25 [OF pps]
  have "map rr_feature res = ?cols" "map rr_coefficient res = take (length ?cols) cs"
    "map rr_pp_effect res = map (\<lambda>c. c * 25) (take (length ?cols) cs)"
    by simp_all
  with y cs show ?thesis by (rule that)
qed


lemma filter_disjoint_length:
  "(\<And>x. \<not> (P x \<and> Q x)) \<Longrightarrow> length (filter P xs) + length (filter Q xs) \<le> length xs"
  by (induction xs) auto

lemma np_mean_bool_map:
  "np_mean_bool (map P xs) = real (length (filter P xs)) / real (length xs)"
  by (simp add: np_mean_bool_def filter_map comp_def)

lemma two_tailed_bounds:
  "0 \<le> two_tailed coef_dist c \<and> two_tailed coef_dist c \<le> 2"
proof -
  have 1: "length (filter P coef_dist) \<le> length coef_dist" for P
    by simp
  have "0 \<le> real (length (filter P coef_dist)) / real (length coef_dist) \<and>
        real (length (filter P coef_dist)) / real (length coef_dist) \<le> 1" for P
    using 1 [of P] by (cases "coef_dist = []") (simp_all add: divide_le_eq_1)
  then show ?thesis
    unfolding two_tailed_def np_mean_bool_map by (simp add: min_le_iff_disj)
qed

lemma two_tailed_le_1:
  assumes "c \<noteq> 0"
  shows "two_tailed coef_dist c \<le> 1"
proof (cases "coef_dist = []")
  case True
  then show ?thesis by (simp add: two_tailed_def np_mean_bool_def)
next
  case False
  define n where "n = real (length coef_dist)"
  define a where "a = real (length (filter (\<lambda>b. b \<ge> \<bar>c\<bar>) coef_dist))"
  define b where "b = real (length (filter (\<lambda>b. b \<le> - \<bar>c\<bar>) coef_dist))"
  from False have n: "0 < n" by (simp add: n_def)
  have "length (filter (\<lambda>b. b \<ge> \<bar>c\<bar>) coef_dist) + length (filter (\<lambda>b. b \<le> - \<bar>c\<bar>) coef_dist)
          \<le> length coef_dist"
    by (rule filter_disjoint_length) (use assms in auto)
  then have ab: "a + b \<le> n"
    unfolding a_def b_def n_def by (metis of_nat_add of_nat_le_iff)
  have "0 \<le> a" "0 \<le> b" by (simp_all add: a_def b_def)
  with ab have "2 * min a b \<le> n" by (simp add: min_def)
  then have "2 * min (a / n) (b / n) \<le> 1"
    using n by (simp add: min_def field_simps split: if_splits)
  then show ?thesis
    unfolding two_tailed_def np_mean_bool_map a_def b_def n_def .
qed

lemma two_tailed_zero: "0 < n \<Longrightarrow> two_tailed (replicate n 0) 0 = 2"
  by (simp add: two_tailed_def np_mean_bool_def)

lemma constant_bootstrap:
  assumes n: "0 < n"
    and it: "\<And>i. i < n \<Longrightarrow> bootstrap_iteration fit orig X y rng i = Inr zs"
    and len: "length orig \<le> length zs"
  shows "calculate_bootstrap_p_values fit orig X y n rng =
           Inr (map (\<lambda>i. max (two_tailed (replicate n (zs ! i)) (orig ! i)) (1 / 10 ^ 6))
                  [0..<length orig])"
proof -
  have "sequence (map (bootstrap_iteration fit orig X y rng) [0..<n]) =
          Inr (map (\<lambda>i. zs) [0..<n])"
    by (rule sequence_map_all_Inr) (simp add: it)
  then have rows: "sequence (map (bootstrap_iteration fit orig X y rng) [0..<n]) =
          Inr (replicate n zs)"
    by (simp add: map_replicate_const)
  have arr: "np_array (replicate n zs) = Inr (replicate n zs)"
    using n by (simp add: np_array_def list_all_iff)
  have col: "\<And>i. i < length orig \<Longrightarrow>
      array_column (replicate n zs) i = Inr (replicate n (zs ! i))"
    using n len by (simp add: array_column_def map_replicate)
  have "sequence (map (\<lambda>i.
                  case array_column (replicate n zs) i of
                    Inl e \<Rightarrow> Inl e
                  | Inr coef_dist \<Rightarrow>
                      Inr (max (two_tailed coef_dist (orig ! i)) (1 / 10 ^ 6)))
                  [0..<length orig]) =
        Inr (map (\<lambda>i. max (two_tailed (replicate n (zs ! i)) (orig ! i)) (1 / 10 ^ 6))
                  [0..<length orig])"
    by (rule sequence_map_all_Inr) (simp add: col)
  then show ?thesis
    by (simp add: calculate_bootstrap_p_values_def rows arr)
qed


lemma same_row_a: "choice_record_final 0 (same_row (Str ''A'')) 1 = Inr (zero_record 0 1)"
  by code_simp

lemma zero_cols: "feature_cols zero_choice_data = robust_features"
  by code_simp

lemma zero_X: "frame_select zero_choice_data robust_features = replicate 2 (replicate 11 (Some (I 0)))"
  by code_simp

lemma zero_y: "frame_getitem zero_choice_data ''choice'' = Inr [Some (I 1), Some (I 0)]"
  by code_simp

lemma length_robust_features: "length robust_features = 11"
  by (simp add: robust_features_def)

lemma zero_fit:
  "X \<noteq> [] \<Longrightarrow> set X \<subseteq> {replicate 11 v} \<Longrightarrow> zero_design_fit s X y = Inr (replicate 11 0)"
  by (cases X) (auto simp: zero_design_fit_def)

lemma zero_iteration:
  assumes "rng i = [j, k]" "j < 2" "k < 2"
  shows "bootstrap_iteration zero_design_fit (replicate 11 0)
           (replicate 2 (replicate 11 (Some (I 0)))) [Some (I 1), Some (I 0)] rng i =
         Inr (replicate 11 0)"
  using assms
  by (simp add: bootstrap_iteration_def iloc_def item_at_def zero_design_fit_def)

lemma zero_p_values:
  assumes "\<And>i. \<exists>j k. rng i = [j, k] \<and> j < 2 \<and> k < 2"
  shows "calculate_bootstrap_p_values zero_design_fit (replicate 11 0)
           (replicate 2 (replicate 11 (Some (I 0)))) [Some (I 1), Some (I 0)] 1000 rng =
         Inr (replicate 11 2)"
proof -
  have it: "\<And>i. i < 1000 \<Longrightarrow> bootstrap_iteration zero_design_fit (replicate 11 0)
           (replicate 2 (replicate 11 (Some (I 0)))) [Some (I 1), Some (I 0)] rng i =
         Inr (replicate 11 0)"
    using assms zero_iteration by blast
  have "calculate_bootstrap_p_values zero_design_fit (replicate 11 0)
           (replicate 2 (replicate 11 (Some (I 0)))) [Some (I 1), Some (I 0)] 1000 rng =
        Inr (map (\<lambda>i. max (two_tailed (replicate 1000 (replicate 11 0 ! i)) (replicate 11 0 ! i))
                   (1 / 10 ^ 6)) [0..<length (replicate 11 (0::real))])"
    by (rule constant_bootstrap) (simp_all add: it)
  also have "map (\<lambda>i. max (two_tailed (replicate 1000 (replicate 11 0 ! i)) (replicate 11 0 ! i))
                   (1 / 10 ^ 6)) [0..<length (replicate 11 (0::real))] = map (\<lambda>i. 2) [0..<11]"
    by (rule map_cong) (simp_all add: two_tailed_zero)
  also have "\<dots> = replicate 11 2"
    by (simp add: map_replicate_const)
  finally show ?thesis .
qed

lemma zero_pp: "calculate_pp_effects_final (replicate 11 0) robust_features = Inr (replicate 11 0)"
proof -
  have "calculate_pp_effects_final (replicate 11 0) robust_features =
          Inr (map (\<lambda>i. 0) [0..<length robust_features])"
    unfolding calculate_pp_effects_final_def
    by (rule sequence_map_all_Inr) (simp add: item_at_def length_robust_features)
  then show ?thesis by (simp add: length_robust_features map_replicate_const)
qed

lemma map_enumerate_snd: "map (\<lambda>(i, x). f x) (enumerate n xs) = map f xs"
  by (induction xs arbitrary: n) simp_all

lemma zero_assemble:
  "robust_results robust_features (replicate 11 0) (replicate 11 2) (replicate 11 0) = Inr zero_results"
proof -
  have "robust_results robust_features (replicate 11 0) (replicate 11 2) (replicate 11 0) =
     Inr (map (\<lambda>(i, feature). \<lparr>rr_feature = feature, rr_coefficient = 0, rr_p_value = 2,
                       rr_pp_effect = 0, rr_significance = ''n.s.''\<rparr>) (enumerate 0 robust_features))"
    unfolding robust_results_def
    by (rule sequence_map_all_Inr)
       (auto simp: item_at_def length_robust_features in_set_enumerate_eq get_significance_final_def py_lt_def)
  also have "map (\<lambda>(i, feature). \<lparr>rr_feature = feature, rr_coefficient = 0, rr_p_value = 2,
                       rr_pp_effect = 0, rr_significance = ''n.s.''\<rparr>) (enumerate 0 robust_features)
      = zero_results"
    unfolding zero_results_def by (rule map_enumerate_snd)
  finally show ?thesis .
qed

lemma zero_run:
  assumes "\<And>i. \<exists>j k. rng i = [j, k] \<and> j < 2 \<and> k < 2"
  shows "run_robust_analysis zero_design_fit zero_choice_data rng = Inr zero_results"
proof -
  have f: "zero_design_fit 42 (replicate 2 (replicate 11 (Some (I 0)))) [Some (I 1), Some (I 0)]
      = Inr (replicate 11 0)"
    by (simp add: zero_design_fit_def)
  show ?thesis
    by (simp add: run_robust_analysis_def zero_cols zero_X zero_y f zero_p_values [OF assms]
          zero_pp zero_assemble)
qed

lemma draws_a_valid: "\<exists>j k. draws_a i = [j, k] \<and> j < 2 \<and> k < 2"
  by (simp add: draws_a_def)

lemma zero_run_a: "run_robust_analysis zero_design_fit zero_choice_data draws_a = Inr zero_results"
  by (rule zero_run) (rule draws_a_valid)

text \<open>
  The unseeded bootstrap draws of \<^verbatim>\<open>run_robust_analysis\<close> reach the p-values only: two runs
  on the same choice data with the same fitter report the same features, coefficients and
  percentage-point effects, whatever the draws of the two runs are.
\<close>

lemma effects_do_not_depend_on_draws:
  assumes "run_robust_analysis fit choice_data rng1 = Inr res1"
    and "run_robust_analysis fit choice_data rng2 = Inr res2"
  shows "map rr_feature res1 = map rr_feature res2 \<and>
         map rr_coefficient res1 = map rr_coefficient res2 \<and>
         map rr_pp_effect res1 = map rr_pp_effect res2"
proof -
  from assms(1) obtain y1 c1 where 1:
    "frame_getitem choice_data ''choice'' = Inr y1"
    "fit 42 (frame_select choice_data (feature_cols choice_data)) y1 = Inr c1"
    "map rr_feature res1 = feature_cols choice_data"
    "map rr_coefficient res1 = take (length (feature_cols choice_data)) c1"
    "map rr_pp_effect res1 = map (\<lambda>c. c * 25) (take (length (feature_cols choice_data)) c1)"
    by (rule run_robust_analysis_depends_on_data)
  from assms(2) obtain y2 c2 where 2:
    "frame_getitem choice_data ''choice'' = Inr y2"
    "fit 42 (frame_select choice_data (feature_cols choice_data)) y2 = Inr c2"
    "map rr_feature res2 = feature_cols choice_data"
    "map rr_coefficient res2 = take (length (feature_cols choice_data)) c2"
    "map rr_pp_effect res2 = map (\<lambda>c. c * 25) (take (length (feature_cols choice_data)) c2)"
    by (rule run_robust_analysis_depends_on_data)
  from 1(1) 2(1) have y: "y1 = y2" by simp
  with 1(2) 2(2) have c: "c1 = c2" by simp
  show ?thesis
    unfolding 1(3-5) 2(3-5) c by simp
qed

lemma bootstrap_p_values_range:
  assumes "calculate_bootstrap_p_values fit orig X y n rng = Inr ps"
  shows "length ps = length orig \<and>
         (\<forall>i<length orig. 1 / 10 ^ 6 \<le> ps ! i \<and> ps ! i \<le> 2 \<and> (orig ! i \<noteq> 0 \<longrightarrow> ps ! i \<le> 1))"
proof -
  from assms obtain rows where "sequence (map (bootstrap_iteration fit orig X y rng) [0..<n]) = Inr rows"
    by (cases "sequence (map (bootstrap_iteration fit orig X y rng) [0..<n])")
       (simp_all add: calculate_bootstrap_p_values_def)
  with assms obtain bs where bs: "np_array rows = Inr bs"
    and ps: "sequence (map (\<lambda>i.
                  case array_column bs i of
                    Inl e \<Rightarrow> Inl e
                  | Inr coef_dist \<Rightarrow>
                      Inr (max (two_tailed coef_dist (orig ! i)) (1 / 10 ^ 6)))
                  [0..<length orig]) = Inr ps"
    by (cases "np_array rows") (simp_all add: calculate_bootstrap_p_values_def)
  define g where "g = (\<lambda>i. case array_column bs i of
                    Inl e \<Rightarrow> Inl e
                  | Inr coef_dist \<Rightarrow>
                      Inr (max (two_tailed coef_dist (orig ! i)) (1 / 10 ^ 6)))"
  have step: "\<And>i p. g i = Inr p \<Longrightarrow>
      1 / 10 ^ 6 \<le> p \<and> p \<le> 2 \<and> (orig ! i \<noteq> 0 \<longrightarrow> p \<le> 1)"
  proof -
    fix i p assume "g i = Inr p"
    then have "\<exists>d. p = max (two_tailed d (orig ! i)) (1 / 10 ^ 6)"
      by (cases "array_column bs i") (auto simp: g_def)
    then obtain d where p: "p = max (two_tailed d (orig ! i)) (1 / 10 ^ 6)"
      by (elim exE)
    from two_tailed_bounds [of d "orig ! i"] two_tailed_le_1 [of "orig ! i" d]
    show "1 / 10 ^ 6 \<le> p \<and> p \<le> 2 \<and> (orig ! i \<noteq> 0 \<longrightarrow> p \<le> 1)"
      unfolding p by simp
  qed
  from ps have all2: "list_all2 (\<lambda>i p. g i = Inr p) [0..<length orig] ps"
    unfolding g_def by (rule sequence_map_Inr_D)
  then have len: "length ps = length orig"
    using list_all2_lengthD by fastforce
  have "\<And>i. i < length orig \<Longrightarrow> g i = Inr (ps ! i)"
    using all2 by (simp add: list_all2_conv_all_nth)
  with step len show ?thesis by blast
qed

text \<open>
  C10 at the failing input. Two choice sets whose design columns are all 0: the fitted
  coefficients are 0, so is every bootstrap coefficient, both tail frequencies are 1, and
  the function returns the p-value 2 for every coefficient; \<^verbatim>\<open>run_robust_analysis\<close> reports
  it. (By \<open>bootstrap_p_values_range\<close> the returned values always lie between 1e-6 and 2, and
  are at most 1 for every coefficient that is not exactly 0.)
\<close>

theorem bootstrap_p_value_exceeds_one:
  "calculate_bootstrap_p_values zero_design_fit (replicate 11 0)
     (frame_select zero_choice_data robust_features) [Some (I 1), Some (I 0)] 1000 draws_a =
     Inr (replicate 11 2) \<and>
   run_robust_analysis zero_design_fit zero_choice_data draws_a = Inr zero_results \<and>
   map rr_p_value zero_results = replicate 11 2"
proof -
  have "map rr_p_value zero_results = map (\<lambda>feature. 2) robust_features"
    by (simp add: zero_results_def comp_def)
  then have "map rr_p_value zero_results = replicate 11 2"
    by (simp add: map_replicate_const length_robust_features)
  with zero_p_values [of draws_a, OF draws_a_valid] zero_run_a show ?thesis
    by (simp add: zero_X)
qed

section \<open>Properties of the estimator of \<^verbatim>\<open>improved_conditional_logit\<close>\<close>

lemma sequence_Inr_set: "sequence ms = Inr xs \<Longrightarrow> x \<in> set xs \<Longrightarrow> Inr x \<in> set ms"
  by (induction ms arbitrary: xs) (auto split: sum.splits)











lemma example_run:
  "run_conditional_logit_model example_logit_fit no_float no_int example_choice_data =
     Inr example_output"
  by code_simp





lemma example_fit:
  "example_logit_fit [[Some 1], [Some (- 1)], [Some 1]] [1, 0, 1] =
     Inr (out_model_result example_output)"
  by (simp add: example_logit_fit_def example_output_def)




section \<open>Properties of the significance tiers\<close>

lemma estimated_row_tier:
  "estimated_row result pp i f = Inr (Some e) \<Longrightarrow>
   est_significance e = get_significance (Some (est_p_value e))"
  by (auto simp: estimated_row_def Let_def split: option.splits sum.splits prod.splits)

lemma placeholder_rows_tier:
  "e \<in> set (placeholder_rows cf) \<Longrightarrow>
   est_significance e = ''excluded (collinear)'' \<and> est_p_value e = 1 \<and> est_coefficient e = 0"
  by (auto simp: placeholder_rows_def Let_def placeholder_def split: option.splits)

lemma run_results_tier:
  assumes "run_conditional_logit_model fit ft it cd = Inr out"
    and "e \<in> set (out_results out)"
  shows "est_significance e = get_significance (Some (est_p_value e)) \<or>
         est_significance e = ''excluded (collinear)'' \<and> est_p_value e = 1"
proof -
  from assms(1) obtain ff cf result pp rows where
    rows: "sequence (map (\<lambda>(i, feature). estimated_row result pp i feature) (enumerate 0 ff)) = Inr rows"
    and res: "out_results out = concat (map (\<lambda>r. case r of None \<Rightarrow> [] | Some x \<Rightarrow> [x]) rows) @ placeholder_rows cf"
    by (auto simp: run_conditional_logit_model_def split: sum.splits prod.splits)
  from assms(2) res consider (est) "Some e \<in> set rows" | (plh) "e \<in> set (placeholder_rows cf)"
    by (auto split: option.splits)
  then show ?thesis
  proof cases
    case est
    with rows have "Inr (Some e) \<in> set (map (\<lambda>(i, feature). estimated_row result pp i feature) (enumerate 0 ff))"
      by (rule sequence_Inr_set)
    then obtain i f where "estimated_row result pp i f = Inr (Some e)"
      by (auto simp: image_iff)
    then have "est_significance e = get_significance (Some (est_p_value e))"
      by (rule estimated_row_tier)
    then show ?thesis by (rule disjI1)
  next
    case plh
    then have "est_significance e = ''excluded (collinear)'' \<and> est_p_value e = 1 \<and> est_coefficient e = 0"
      by (rule placeholder_rows_tier)
    then have "est_significance e = ''excluded (collinear)'' \<and> est_p_value e = 1"
      by (elim conjE) (rule conjI)
    then show ?thesis by (rule disjI2)
  qed
qed

lemma significance_thresholds:
  "(get_significance (Some v) = ''***'' \<longleftrightarrow> v < 0.001) \<and>
   (get_significance (Some v) = ''**'' \<longleftrightarrow> 0.001 \<le> v \<and> v < 0.01) \<and>
   (get_significance (Some v) = ''*'' \<longleftrightarrow> 0.01 \<le> v \<and> v < 0.05) \<and>
   (get_significance (Some v) = ''(marginal)'' \<longleftrightarrow> 0.05 \<le> v \<and> v < 0.1) \<and>
   (get_significance (Some v) = ''n.s.'' \<longleftrightarrow> 0.1 \<le> v) \<and>
   get_significance None = ''n.s.''"
  by (simp add: get_significance_def py_lt_def)

lemma significance_same:
  "get_significance_final p = get_significance p \<and>
   table_significance p = (if get_significance p = ''n.s.'' then [] else get_significance p)"
  by (simp add: get_significance_def get_significance_final_def table_significance_def)

text \<open>
  C9 (as the code has it). \<^verbatim>\<open>get_significance\<close> is a total function of the p-value alone,
  with fixed thresholds: \<open>***\<close> when p < 0.001, \<open>**\<close> when 0.001 <= p < 0.01, \<open>*\<close> when
  0.01 <= p < 0.05, \<open>(marginal)\<close> when 0.05 <= p < 0.1, and \<open>n.s.\<close> when p >= 0.1 or p is
  NaN; so every p-value gets exactly one of the five labels. \<^verbatim>\<open>get_significance_final\<close> is the
  same mapping. The mapping is not the only one in use: the results table of
  \<^verbatim>\<open>conjoint_results_analysis\<close> and of \<^verbatim>\<open>simple_conjoint_results\<close> uses the same thresholds but
  the empty text where \<^verbatim>\<open>get_significance\<close> says \<open>n.s.\<close>; and in the result list of
  \<^verbatim>\<open>run_conditional_logit_model\<close> an entry carries either the tier \<^verbatim>\<open>get_significance\<close> gives to
  its p-value, or, for an excluded level, the tier \<open>excluded (collinear)\<close> with the
  p-value 1.
\<close>

theorem significance_tiers:
  "(get_significance (Some v) = ''***'' \<longleftrightarrow> v < 0.001) \<and>
   (get_significance (Some v) = ''**'' \<longleftrightarrow> 0.001 \<le> v \<and> v < 0.01) \<and>
   (get_significance (Some v) = ''*'' \<longleftrightarrow> 0.01 \<le> v \<and> v < 0.05) \<and>
   (get_significance (Some v) = ''(marginal)'' \<longleftrightarrow> 0.05 \<le> v \<and> v < 0.1) \<and>
   (get_significance (Some v) = ''n.s.'' \<longleftrightarrow> 0.1 \<le> v) \<and>
   get_significance None = ''n.s.'' \<and>
   get_significance_final p = get_significance p \<and>
   table_significance p = (if get_significance p = ''n.s.'' then [] else get_significance p) \<and>
   (run_conditional_logit_model logit_fit float_of_text int_of_text choice_data = Inr out \<longrightarrow>
      (\<forall>e\<in>set (out_results out).
         est_significance e = get_significance (Some (est_p_value e)) \<or>
         est_significance e = ''excluded (collinear)'' \<and> est_p_value e = 1))"
proof -
  have "run_conditional_logit_model logit_fit float_of_text int_of_text choice_data = Inr out \<longrightarrow>
      (\<forall>e\<in>set (out_results out).
         est_significance e = get_significance (Some (est_p_value e)) \<or>
         est_significance e = ''excluded (collinear)'' \<and> est_p_value e = 1)"
    by (intro impI ballI) (rule run_results_tier)
  with significance_thresholds [of v] significance_same [of p] show ?thesis
    by (simp only: simp_thms)
qed

theorem significance_tiers_witness:
  "get_significance (Some 0.0005) = ''***'' \<and> get_significance (Some 0.005) = ''**'' \<and>
   get_significance (Some 0.03) = ''*'' \<and> get_significance (Some 0.07) = ''(marginal)'' \<and>
   get_significance (Some 0.5) = ''n.s.'' \<and> get_significance None = ''n.s.'' \<and>
   get_significance_final (Some 0.03) = get_significance (Some 0.03) \<and>
   table_significance (Some 0.5) = [] \<and>
   run_conditional_logit_model example_logit_fit no_float no_int example_choice_data =
     Inr example_output \<and>
   list_all (\<lambda>e. est_significance e = get_significance (Some (est_p_value e)) \<or>
                 est_significance e = ''excluded (collinear)'' \<and> est_p_value e = 1)
     (out_results example_output)"
proof -
  have 1: "get_significance (Some 0.0005) = ''***''"
    by (rule significance_tiers [where v = "0.0005", THEN conjunct1, THEN iffD2]) simp
  have 2: "get_significance (Some 0.005) = ''**''"
    by (rule significance_tiers [where v = "0.005", THEN conjunct2, THEN conjunct1, THEN iffD2])
       simp
  have 3: "get_significance (Some 0.03) = ''*''"
    by (rule significance_tiers [where v = "0.03", THEN conjunct2, THEN conjunct2,
          THEN conjunct1, THEN iffD2]) simp
  have 4: "get_significance (Some 0.07) = ''(marginal)''"
    by (rule significance_tiers [where v = "0.07", THEN conjunct2, THEN conjunct2,
          THEN conjunct2, THEN conjunct1, THEN iffD2]) simp
  have 5: "get_significance (Some 0.5) = ''n.s.''"
    by (rule significance_tiers [where v = "0.5", THEN conjunct2, THEN conjunct2,
          THEN conjunct2, THEN conjunct2, THEN conjunct1, THEN iffD2]) simp
  have 6: "get_significance None = ''n.s.''"
    by (rule significance_tiers [THEN conjunct2, THEN conjunct2,
          THEN conjunct2, THEN conjunct2, THEN conjunct2, THEN conjunct1])
  have 7: "get_significance_final (Some 0.03) = get_significance (Some 0.03)"
    by (rule significance_tiers [THEN conjunct2, THEN conjunct2,
          THEN conjunct2, THEN conjunct2, THEN conjunct2, THEN conjunct2, THEN conjunct1])
  have "table_significance (Some 0.5) =
          (if get_significance (Some 0.5) = ''n.s.'' then [] else get_significance (Some 0.5))"
    by (rule significance_tiers [THEN conjunct2, THEN conjunct2,
          THEN conjunct2, THEN conjunct2, THEN conjunct2, THEN conjunct2, THEN conjunct2,
          THEN conjunct1])
  then have 8: "table_significance (Some 0.5) = []"
    by (simp only: 5 simp_thms if_True)
  have "\<forall>e\<in>set (out_results example_output).
          est_significance e = get_significance (Some (est_p_value e)) \<or>
          est_significance e = ''excluded (collinear)'' \<and> est_p_value e = 1"
    by (rule significance_tiers [THEN conjunct2, THEN conjunct2,
          THEN conjunct2, THEN conjunct2, THEN conjunct2, THEN conjunct2, THEN conjunct2,
          THEN conjunct2, THEN mp, OF example_run])
  then have 9: "list_all (\<lambda>e. est_significance e = get_significance (Some (est_p_value e)) \<or>
                 est_significance e = ''excluded (collinear)'' \<and> est_p_value e = 1)
     (out_results example_output)"
    by (simp only: list_all_iff)
  from 1 2 3 4 5 6 7 8 example_run 9 show ?thesis
    by (intro conjI)
qed

text \<open>
  C9 as stated fails: the tier is not a function of the p-value alone, and not every place
  that reports tiers uses the same mapping. In the result list of the example, the entry
  of the excluded school price has the p-value 1 and the tier \<open>excluded (collinear)\<close>,
  where \<^verbatim>\<open>get_significance\<close> gives \<open>n.s.\<close> to the p-value 1; and for the p-value 0.5 the
  results table has the empty text where \<^verbatim>\<open>get_significance\<close> gives \<open>n.s.\<close>.
\<close>

theorem tier_mapping_counterexample:
  "run_conditional_logit_model example_logit_fit no_float no_int example_choice_data =
     Inr example_output \<and>
   est_p_value (out_results example_output ! 1) = 1 \<and>
   est_significance (out_results example_output ! 1) = ''excluded (collinear)'' \<and>
   get_significance (Some 1) = ''n.s.'' \<and>
   get_significance (Some (1 / 2)) = ''n.s.'' \<and>
   table_significance (Some (1 / 2)) = []"
proof -
  have "est_p_value (out_results example_output ! 1) = 1"
    and "est_significance (out_results example_output ! 1) = ''excluded (collinear)''"
    by (simp_all add: example_output_def placeholder_def)
  moreover have "get_significance (Some 1) = ''n.s.''"
    and "get_significance (Some (1 / 2)) = ''n.s.''"
    and "table_significance (Some (1 / 2)) = []"
    by (simp_all add: get_significance_def table_significance_def py_lt_def)
  ultimately show ?thesis using example_run by (intro conjI)
qed

end
